theory Spec2Isabelle
  imports Main "HOL-Library.Sublist"
begin

section \<open>Data model of viewview.py\<close>

text \<open>
  The frozen dataclasses of the source. \<open>platform\<close> is a Python string (the
  \<open>Literal\<close> annotation is not enforced at run time), so the \<open>if\<close>/\<open>elif\<close> of
  \<open>watch_stream\<close> keeps its silent fall-through for any other value.
\<close>

record StreamPlatformConfig =
  platform :: string
  base_url :: string
  username :: string

record TwitchConfig =
  client_id :: string
  live_indicator :: string

definition TwitchConfig_default :: TwitchConfig where
  "TwitchConfig_default =
     \<lparr>client_id = ''kimne78kx3ncx6brgo4mv6wki5h1ko'', live_indicator = ''isLiveBroadcast''\<rparr>"

text \<open>
  Python exceptions as values. \<open>RequestException\<close> stands for
  \<open>requests.exceptions.RequestException\<close> and its subclasses (connection error,
  timeout, \<open>HTTPError\<close>), \<open>OtherException\<close> for any other subclass of
  \<open>Exception\<close>, \<open>BaseException\<close> for what \<open>except Exception\<close> does not catch
  (\<open>KeyboardInterrupt\<close>, \<open>SystemExit\<close>). \<open>RetryError n e\<close> is tenacity's
  \<open>RetryError(last_attempt)\<close>: the attempt number of the last attempt and its exception.
\<close>

datatype exn =
    RequestException string
  | StreamViewerException string
  | RetryError nat exn
  | OtherException string
  | BaseException string

fun is_Exception :: "exn \<Rightarrow> bool" where
  "is_Exception (BaseException m) = False"
| "is_Exception e = True"

fun is_RequestException :: "exn \<Rightarrow> bool" where
  "is_RequestException (RequestException m) = True"
| "is_RequestException e = False"

fun is_StreamViewerException :: "exn \<Rightarrow> bool" where
  "is_StreamViewerException (StreamViewerException m) = True"
| "is_StreamViewerException e = False"

fun str_exn :: "exn \<Rightarrow> string" where
  "str_exn (RequestException m) = m"
| "str_exn (StreamViewerException m) = m"
| "str_exn (RetryError n e) = ''RetryError['' @ str_exn e @ '']''"
| "str_exn (OtherException m) = m"
| "str_exn (BaseException m) = m"

type_synonym handle = nat

record response =
  status_code :: int
  reason :: string
  resp_url :: string
  resp_text :: string

text \<open>
  Every call that leaves the program: the seleniumbase session, the HTTP GET. The
  arguments are the ones the source passes.
\<close>

datatype call =
    SB_enter
  | SB_exit handle
  | sleep handle int
  | uc_gui_click_captcha handle
  | uc_gui_handle_captcha handle
  | is_element_present handle string
  | uc_click handle string int
  | uc_open_with_reconnect handle string int
  | is_element_visible handle string
  | get_new_driver handle
  | quit_extra_driver handle
  | requests_get string string int
  | time_sleep int

datatype event = Call call | LogInfo string | LogError string | TimeSleep int

text \<open>
  The outside world answers the \<open>n\<close>-th external call: a call may return or raise.
  \<open>urljoin\<close> is the standard library's, taken as a parameter.
\<close>

record env =
  act :: "nat \<Rightarrow> call \<Rightarrow> exn option"
  ask :: "nat \<Rightarrow> call \<Rightarrow> exn + bool"
  new_session :: "nat \<Rightarrow> call \<Rightarrow> exn + handle"
  http :: "nat \<Rightarrow> call \<Rightarrow> exn + response"
  urljoin :: "string \<Rightarrow> string \<Rightarrow> string"

text \<open>
  The \<open>StreamViewer\<close> object (\<open>browser\<close>, \<open>secondary_browser\<close>) together with the
  number of external calls made so far and the trace of what the program did.
  \<open>cleanup_calls\<close> counts the entries into \<open>_cleanup\<close>.
\<close>

record state =
  browser :: "handle option"
  secondary_browser :: "handle option"
  clock :: nat
  trace :: "event list"
  cleanup_calls :: nat

definition StreamViewer_init :: state where
  "StreamViewer_init =
     \<lparr>browser = None, secondary_browser = None, clock = 0, trace = [], cleanup_calls = 0\<rparr>"

definition stream_url :: "env \<Rightarrow> StreamPlatformConfig \<Rightarrow> string" where
  "stream_url E c = urljoin E (base_url c) (username c)"

subsection \<open>External calls and logging\<close>

definition tick :: "call \<Rightarrow> state \<Rightarrow> state" where
  "tick c s = s\<lparr>clock := Suc (clock s), trace := trace s @ [Call c]\<rparr>"

definition do_act :: "env \<Rightarrow> call \<Rightarrow> state \<Rightarrow> (exn + unit) \<times> state" where
  "do_act E c s = (case act E (clock s) c of None \<Rightarrow> (Inr (), tick c s) | Some e \<Rightarrow> (Inl e, tick c s))"

definition do_ask :: "env \<Rightarrow> call \<Rightarrow> state \<Rightarrow> (exn + bool) \<times> state" where
  "do_ask E c s = (ask E (clock s) c, tick c s)"

definition do_new :: "env \<Rightarrow> call \<Rightarrow> state \<Rightarrow> (exn + handle) \<times> state" where
  "do_new E c s = (new_session E (clock s) c, tick c s)"

definition do_http :: "env \<Rightarrow> call \<Rightarrow> state \<Rightarrow> (exn + response) \<times> state" where
  "do_http E c s = (http E (clock s) c, tick c s)"

definition log_error :: "string \<Rightarrow> state \<Rightarrow> state" where
  "log_error m s = s\<lparr>trace := trace s @ [LogError m]\<rparr>"

definition log_info :: "string \<Rightarrow> state \<Rightarrow> state" where
  "log_info m s = s\<lparr>trace := trace s @ [LogInfo m]\<rparr>"

text \<open>
  \<open>time.sleep\<close>, as tenacity calls it through \<open>nap.sleep\<close>. CPython holds the
  timeout in 64-bit nanoseconds, so above 9223372036 seconds the call raises
  \<open>OverflowError\<close>; below, whether it returns is the platform's business, as for any
  external call. \<open>TimeSleep d\<close> enters the trace when \<open>d\<close> seconds have been waited.
  tenacity hands the delay over as a float: a delay that is not refused is a whole number
  below \<open>2 ^ 53\<close> and converts exactly, and the conversion is monotone, so a delay
  above the limit stays above it.
\<close>

definition SLEEP_MAX :: int where
  "SLEEP_MAX = 9223372036"

definition nap_sleep :: "env \<Rightarrow> int \<Rightarrow> state \<Rightarrow> (exn + unit) \<times> state" where
  "nap_sleep E d s =
     (if SLEEP_MAX < d then (Inl (OtherException ''OverflowError''), s\<lparr>clock := Suc (clock s)\<rparr>)
      else case act E (clock s) (time_sleep d) of
             Some e \<Rightarrow> (Inl e, s\<lparr>clock := Suc (clock s)\<rparr>)
           | None \<Rightarrow> (Inr (), s\<lparr>clock := Suc (clock s), trace := trace s @ [TimeSleep d]\<rparr>))"

text \<open>Sequencing: an exception skips the rest.\<close>

definition bind :: "(exn + 'a) \<times> state \<Rightarrow> ('a \<Rightarrow> state \<Rightarrow> (exn + 'b) \<times> state) \<Rightarrow> (exn + 'b) \<times> state" where
  "bind r f = (case r of (Inl e, s) \<Rightarrow> (Inl e, s) | (Inr v, s) \<Rightarrow> f v s)"

subsection \<open>Decimal text of an integer, as an f-string prints it\<close>

fun str_nat :: "nat \<Rightarrow> string" where
  "str_nat n = (if n < 10 then [''0123456789'' ! n] else str_nat (n div 10) @ [''0123456789'' ! (n mod 10)])"

declare str_nat.simps [simp del]

definition str_int :: "int \<Rightarrow> string" where
  "str_int i = (if i < 0 then CHR ''-'' # str_nat (nat (- i)) else str_nat (nat i))"

section \<open>retry_on_exception\<close>

text \<open>
  The decorator stacks tenacity's \<open>retry\<close> on the source's \<open>wrapper\<close>. The three
  tenacity pieces it uses, as the library documents them:
  \<^item> \<open>stop_after_attempt(k)\<close> stops once the attempt number has reached \<open>k\<close>;
  \<^item> \<open>wait_exponential(multiplier, max, exp_base, min)\<close> waits
    \<open>multiplier * exp_base ** (attempt_number - 1)\<close>, clamped between \<open>max(0, min)\<close>
    and \<open>max\<close>; \<open>max\<close> defaults to \<open>MAX_WAIT = sys.maxsize / 2\<close> and \<open>exp_base\<close> to 2.
    The product is computed on Python integers; \<open>min\<close> and \<open>max\<close> are kept as floats
    and the result is handed to the sleep as a float. The definitions below compute on
    integers: this is the value tenacity computes whenever that value is below
    \<open>2 ^ 53\<close>, and a value that is not is refused by the sleep (see \<open>nap_sleep\<close>), so
    that its digits do not matter;
  \<^item> \<open>retry(...)\<close> with no \<open>retry=\<close> and no \<open>reraise=\<close> argument retries on every
    \<open>Exception\<close>, lets anything else through, and on exhaustion raises
    \<open>RetryError\<close> holding the last attempt; between two attempts it sleeps, and an
    exception of the sleep ends the call.
\<close>

definition stop_after_attempt :: "int \<Rightarrow> nat \<Rightarrow> bool" where
  "stop_after_attempt max_attempt_number attempt_number = (max_attempt_number \<le> int attempt_number)"

definition MAX_WAIT :: int where
  "MAX_WAIT = 2 ^ 62"

definition wait_exponential :: "int \<Rightarrow> int \<Rightarrow> int \<Rightarrow> int \<Rightarrow> nat \<Rightarrow> int" where
  "wait_exponential multiplier mx exp_base mn attempt_number =
     max (max 0 mn) (min (multiplier * exp_base ^ (attempt_number - 1)) mx)"

text \<open>The wait the decorator configures: \<open>wait_exponential(multiplier=wait_seconds, min=wait_seconds)\<close>.\<close>

definition retry_wait :: "int \<Rightarrow> nat \<Rightarrow> int" where
  "retry_wait wait_seconds attempt_number = wait_exponential wait_seconds MAX_WAIT 2 wait_seconds attempt_number"

text \<open>Lines 51 to 56: the \<open>try\<close>/\<open>except Exception\<close> around the wrapped function.\<close>

definition wrapper ::
  "int \<Rightarrow> string \<Rightarrow> (state \<Rightarrow> (exn + 'a) \<times> state) \<Rightarrow> state \<Rightarrow> (exn + 'a) \<times> state" where
  "wrapper max_attempts func_name func s =
     (case func s of
        (Inr v, s1) \<Rightarrow> (Inr v, s1)
      | (Inl e, s1) \<Rightarrow>
          if is_Exception e
          then (Inl (StreamViewerException (''Failed after '' @ str_int max_attempts @ '' attempts: '' @ str_exn e)),
                log_error (''Error in '' @ func_name @ '': '' @ str_exn e) s1)
          else (Inl e, s1))"

text \<open>tenacity's retry loop, from attempt \<open>attempt_number\<close> on.\<close>

function retrying ::
  "env \<Rightarrow> int \<Rightarrow> int \<Rightarrow> (state \<Rightarrow> (exn + 'a) \<times> state) \<Rightarrow> nat \<Rightarrow> state \<Rightarrow> (exn + 'a) \<times> state" where
  "retrying E max_attempts wait_seconds fn attempt_number s =
     (case fn s of
        (Inr v, s1) \<Rightarrow> (Inr v, s1)
      | (Inl e, s1) \<Rightarrow>
          if \<not> is_Exception e then (Inl e, s1)
          else if stop_after_attempt max_attempts attempt_number then (Inl (RetryError attempt_number e), s1)
          else (case nap_sleep E (retry_wait wait_seconds attempt_number) s1 of
                  (Inl e', s2) \<Rightarrow> (Inl e', s2)
                | (Inr u, s2) \<Rightarrow> retrying E max_attempts wait_seconds fn (Suc attempt_number) s2))"
  by pat_completeness auto
termination
  by (relation "measure (\<lambda>(E, m, w, f, n, s). nat (m - int n))")
     (auto simp: stop_after_attempt_def)

declare retrying.simps [simp del]

definition retry_on_exception ::
  "env \<Rightarrow> int \<Rightarrow> int \<Rightarrow> string \<Rightarrow> (state \<Rightarrow> (exn + 'a) \<times> state) \<Rightarrow> state \<Rightarrow> (exn + 'a) \<times> state" where
  "retry_on_exception E max_attempts wait_seconds func_name func s =
     retrying E max_attempts wait_seconds (wrapper max_attempts func_name func) 1 s"

section \<open>StreamViewer\<close>

text \<open>
  \<open>response.raise_for_status()\<close> of requests: an \<open>HTTPError\<close> for a 4xx or a 5xx
  status, with the library's message.
\<close>

definition http_error_msg :: "response \<Rightarrow> string" where
  "http_error_msg r =
     (if 400 \<le> status_code r \<and> status_code r < 500
      then str_int (status_code r) @ '' Client Error: '' @ reason r @ '' for url: '' @ resp_url r
      else if 500 \<le> status_code r \<and> status_code r < 600
      then str_int (status_code r) @ '' Server Error: '' @ reason r @ '' for url: '' @ resp_url r
      else [])"

definition raise_for_status :: "response \<Rightarrow> exn option" where
  "raise_for_status r =
     (if http_error_msg r \<noteq> [] then Some (RequestException (http_error_msg r)) else None)"

text \<open>The body of \<open>check_twitch_stream\<close>, lines 79 to 88, before decoration.\<close>

definition check_twitch_stream_func ::
  "env \<Rightarrow> string \<Rightarrow> TwitchConfig \<Rightarrow> state \<Rightarrow> (exn + bool) \<times> state" where
  "check_twitch_stream_func E user twitch_config s =
     (case do_http E (requests_get (''https://www.twitch.tv/'' @ user) (client_id twitch_config) 10) s of
        (Inl e, s1) \<Rightarrow>
          if is_RequestException e
          then (Inr False, log_error (''Failed to check Twitch stream status: '' @ str_exn e) s1)
          else (Inl e, s1)
      | (Inr r, s1) \<Rightarrow>
          (case raise_for_status r of
             Some e \<Rightarrow> (Inr False, log_error (''Failed to check Twitch stream status: '' @ str_exn e) s1)
           | None \<Rightarrow> (Inr (sublist (live_indicator twitch_config) (resp_text r)), s1)))"

text \<open>\<open>@retry_on_exception()\<close>: the defaults, three attempts and two seconds.\<close>

definition check_twitch_stream ::
  "env \<Rightarrow> string \<Rightarrow> TwitchConfig \<Rightarrow> state \<Rightarrow> (exn + bool) \<times> state" where
  "check_twitch_stream E user twitch_config =
     retry_on_exception E 3 2 ''check_twitch_stream'' (check_twitch_stream_func E user twitch_config)"

text \<open>Lines 90 to 98. The selector is \<^verbatim>\<open>button:contains("Accept")\<close>.\<close>

definition accept_button :: string where
  "accept_button = ''button:contains('' @ [CHR 0x22] @ ''Accept'' @ [CHR 0x22] @ '')''"

definition handle_captcha_and_consent ::
  "env \<Rightarrow> handle \<Rightarrow> int \<Rightarrow> state \<Rightarrow> (exn + unit) \<times> state" where
  "handle_captcha_and_consent E b reconnect_time s =
     bind (do_act E (sleep b 1) s) (\<lambda>_ s1.
     bind (do_act E (uc_gui_click_captcha b) s1) (\<lambda>_ s2.
     bind (do_act E (uc_gui_handle_captcha b) s2) (\<lambda>_ s3.
     bind (do_act E (sleep b reconnect_time) s3) (\<lambda>_ s4.
     bind (do_ask E (is_element_present b accept_button) s4) (\<lambda>present s5.
       if present then do_act E (uc_click b accept_button reconnect_time) s5
       else (Inr (), s5))))))"

text \<open>A method call on \<open>self.browser\<close> while it is \<open>None\<close> raises \<open>AttributeError\<close>.\<close>

definition AttributeError :: exn where
  "AttributeError = OtherException ''AttributeError''"

definition initialize_stream_viewing ::
  "env \<Rightarrow> StreamPlatformConfig \<Rightarrow> state \<Rightarrow> (exn + unit) \<times> state" where
  "initialize_stream_viewing E c s =
     (case browser s of
        None \<Rightarrow> (Inl AttributeError, s)
      | Some b \<Rightarrow>
          bind (do_act E (uc_open_with_reconnect b (stream_url E c) 4) s) (\<lambda>_ s1.
            handle_captcha_and_consent E b 4 s1))"

definition setup_secondary_viewer ::
  "env \<Rightarrow> StreamPlatformConfig \<Rightarrow> state \<Rightarrow> (exn + unit) \<times> state" where
  "setup_secondary_viewer E c s =
     (case browser s of
        None \<Rightarrow> (Inl AttributeError, s)
      | Some b \<Rightarrow>
          bind (do_new E (get_new_driver b) s) (\<lambda>h s1.
          bind (do_act E (uc_open_with_reconnect h (stream_url E c) 5) (s1\<lparr>secondary_browser := Some h\<rparr>)) (\<lambda>_ s2.
            handle_captcha_and_consent E h 4 s2)))"

definition player :: string where
  "player = ''#injected-channel-player''"

text \<open>
  The \<open>while\<close> of \<open>_watch_kick_stream\<close>, lines 133 and 134. It runs for as long as the
  element is reported visible, so it need not return: \<open>None\<close> is the run that never ends.
\<close>

partial_function (option) kick_poll :: "env \<Rightarrow> state \<Rightarrow> ((exn + unit) \<times> state) option" where
  "kick_poll E s =
     (case browser s of
        None \<Rightarrow> Some (Inl AttributeError, s)
      | Some b \<Rightarrow>
          (case do_ask E (is_element_visible b player) s of
             (Inl e, s1) \<Rightarrow> Some (Inl e, s1)
           | (Inr visible, s1) \<Rightarrow>
               if visible
               then (case do_act E (sleep b 10) s1 of
                       (Inl e, s2) \<Rightarrow> Some (Inl e, s2)
                     | (Inr u, s2) \<Rightarrow> kick_poll E s2)
               else Some (Inr (), s1)))"

declare kick_poll.simps [code]

definition watch_kick_stream ::
  "env \<Rightarrow> StreamPlatformConfig \<Rightarrow> state \<Rightarrow> ((exn + unit) \<times> state) option" where
  "watch_kick_stream E c s =
     (case browser s of
        None \<Rightarrow> Some (Inl AttributeError, s)
      | Some b \<Rightarrow>
          (case do_ask E (is_element_visible b player) s of
             (Inl e, s1) \<Rightarrow> Some (Inl e, s1)
           | (Inr visible, s1) \<Rightarrow>
               if visible
               then (case setup_secondary_viewer E c s1 of
                       (Inl e, s2) \<Rightarrow> Some (Inl e, s2)
                     | (Inr u, s2) \<Rightarrow> kick_poll E s2)
               else Some (Inr (), s1)))"

definition watch_twitch_stream ::
  "env \<Rightarrow> StreamPlatformConfig \<Rightarrow> state \<Rightarrow> (exn + unit) \<times> state" where
  "watch_twitch_stream E c s =
     bind (check_twitch_stream E (username c) TwitchConfig_default s) (\<lambda>live s1.
       if live then setup_secondary_viewer E c s1 else (Inr (), s1))"

definition cleanup :: "env \<Rightarrow> state \<Rightarrow> (exn + unit) \<times> state" where
  "cleanup E s =
     (let s0 = s\<lparr>cleanup_calls := Suc (cleanup_calls s)\<rparr> in
      case secondary_browser s0 of
        None \<Rightarrow> (Inr (), s0)
      | Some h \<Rightarrow>
          (case browser s0 of
             None \<Rightarrow> (Inl AttributeError, s0)
           | Some b \<Rightarrow>
               bind (do_act E (quit_extra_driver b) s0) (\<lambda>_ s1.
                 (Inr (), s1\<lparr>secondary_browser := None\<rparr>))))"

text \<open>
  \<open>watch_stream\<close>, lines 107 to 121, in its three layers: the \<open>with SB(...) as
  self.browser\<close> block, the \<open>except Exception\<close> that logs and re-raises, and the
  \<open>finally\<close> that runs \<open>_cleanup\<close>. The session is opened with \<open>test=True\<close>: in
  that mode seleniumbase reports an \<open>Exception\<close> of the block or of its own teardown as a
  failed test and does not raise it again, so only what is not an \<open>Exception\<close> leaves
  the block. An exception while the session is being opened does reach \<open>watch_stream\<close>.
\<close>

definition watch_stream_with ::
  "env \<Rightarrow> StreamPlatformConfig \<Rightarrow> state \<Rightarrow> ((exn + unit) \<times> state) option" where
  "watch_stream_with E c s =
     (case do_new E SB_enter s of
        (Inl e, s1) \<Rightarrow> Some (Inl e, s1)
      | (Inr b, s1) \<Rightarrow>
          (case
             (case initialize_stream_viewing E c
                     (log_info (''Attempting to watch stream on '' @ platform c) (s1\<lparr>browser := Some b\<rparr>)) of
                (Inl e, s2) \<Rightarrow> Some (Inl e, s2)
              | (Inr u, s2) \<Rightarrow>
                  if platform c = ''kick'' then watch_kick_stream E c s2
                  else if platform c = ''twitch'' then Some (watch_twitch_stream E c s2)
                  else Some (Inr (), s2))
           of
             None \<Rightarrow> None
           | Some (r, s3) \<Rightarrow>
               (let r' = (case r of
                            Inl e \<Rightarrow> if is_Exception e then Inr () else Inl e
                          | Inr u \<Rightarrow> Inr ())
                in case do_act E (SB_exit b) s3 of
                     (Inl e, s4) \<Rightarrow> if is_Exception e then Some (r', s4) else Some (Inl e, s4)
                   | (Inr u, s4) \<Rightarrow> Some (r', s4))))"

definition watch_stream_try ::
  "env \<Rightarrow> StreamPlatformConfig \<Rightarrow> state \<Rightarrow> ((exn + unit) \<times> state) option" where
  "watch_stream_try E c s =
     (case watch_stream_with E c s of
        None \<Rightarrow> None
      | Some (Inr u, s1) \<Rightarrow> Some (Inr u, s1)
      | Some (Inl e, s1) \<Rightarrow>
          if is_Exception e
          then Some (Inl e, log_error (''Error during stream viewing: '' @ str_exn e) s1)
          else Some (Inl e, s1))"

definition watch_stream ::
  "env \<Rightarrow> StreamPlatformConfig \<Rightarrow> state \<Rightarrow> ((exn + unit) \<times> state) option" where
  "watch_stream E c s =
     (case watch_stream_try E c s of
        None \<Rightarrow> None
      | Some (r, s1) \<Rightarrow>
          (case cleanup E s1 of
             (Inl e, s2) \<Rightarrow> Some (Inl e, s2)
           | (Inr u, s2) \<Rightarrow> Some (r, s2)))"

section \<open>main\<close>

definition kick_config :: StreamPlatformConfig where
  "kick_config = \<lparr>platform = ''kick'', base_url = ''https://kick.com/'', username = ''brutalles''\<rparr>"

definition twitch_config :: StreamPlatformConfig where
  "twitch_config = \<lparr>platform = ''twitch'', base_url = ''https://www.twitch.tv/'', username = ''brutalles''\<rparr>"

text \<open>The \<open>try\<close> block of \<open>main\<close>, lines 172 to 178, on a fresh \<open>StreamViewer\<close>.\<close>

definition main_try :: "env \<Rightarrow> state \<Rightarrow> ((exn + unit) \<times> state) option" where
  "main_try E s =
     (case watch_stream E kick_config s of
        None \<Rightarrow> None
      | Some (Inl e, s1) \<Rightarrow> Some (Inl e, s1)
      | Some (Inr u, s1) \<Rightarrow>
          (case check_twitch_stream E (username twitch_config) TwitchConfig_default s1 of
             (Inl e, s2) \<Rightarrow> Some (Inl e, s2)
           | (Inr live, s2) \<Rightarrow>
               if live then watch_stream E twitch_config s2 else Some (Inr (), s2)))"

definition main :: "env \<Rightarrow> ((exn + unit) \<times> state) option" where
  "main E =
     (case main_try E StreamViewer_init of
        None \<Rightarrow> None
      | Some (Inr u, s1) \<Rightarrow> Some (Inr (), s1)
      | Some (Inl e, s1) \<Rightarrow>
          if is_StreamViewerException e
          then Some (Inr (), log_error (''Stream viewing failed: '' @ str_exn e) s1)
          else Some (Inl e, s1))"

section \<open>Observations on traces and example environments\<close>

abbreviation twitch_request :: "string \<Rightarrow> TwitchConfig \<Rightarrow> call" where
  "twitch_request user cfg \<equiv> requests_get (''https://www.twitch.tv/'' @ user) (client_id cfg) 10"


text \<open>A world where every HTTP GET raises an exception that is not a \<open>RequestException\<close>.\<close>

definition env_boom :: env where
  "env_boom = \<lparr>act = (\<lambda>n c. None), ask = (\<lambda>n c. Inr False), new_session = (\<lambda>n c. Inr n),
     http = (\<lambda>n c. Inl (OtherException ''boom'')), urljoin = (\<lambda>b u. b @ u)\<rparr>"

text \<open>A world where every HTTP GET answers with the given status and body.\<close>

definition env_resp :: "int \<Rightarrow> string \<Rightarrow> env" where
  "env_resp st body = \<lparr>act = (\<lambda>n c. None), ask = (\<lambda>n c. Inr False), new_session = (\<lambda>n c. Inr n),
     http = (\<lambda>n c. Inr \<lparr>status_code = st, reason = [], resp_url = ''https://www.twitch.tv/brutalles'', resp_text = body\<rparr>), urljoin = (\<lambda>b u. b @ u)\<rparr>"

text \<open>A world where every HTTP GET raises a connection error.\<close>

definition env_conn_err :: env where
  "env_conn_err = \<lparr>act = (\<lambda>n c. None), ask = (\<lambda>n c. Inr False), new_session = (\<lambda>n c. Inr n),
     http = (\<lambda>n c. Inl (RequestException ''ConnectionError'')), urljoin = (\<lambda>b u. b @ u)\<rparr>"

text \<open>
  A world where the HTTP GET answers 200 with the marker in the body, nothing raises, no
  consent button is present, and the kick player is reported visible while fewer than
  \<open>k\<close> external calls have been made.
\<close>

definition env_kick_live :: "nat \<Rightarrow> env" where
  "env_kick_live k = \<lparr>act = (\<lambda>n c. None),
     ask = (\<lambda>n c. case c of is_element_visible h sel \<Rightarrow> Inr (n < k) | _ \<Rightarrow> Inr False),
     new_session = (\<lambda>n c. Inr n),
     http = (\<lambda>n c. Inr \<lparr>status_code = 200, reason = [], resp_url = ''https://www.twitch.tv/brutalles'', resp_text = ''{isLiveBroadcast:true}''\<rparr>),
     urljoin = (\<lambda>b u. b @ u)\<rparr>"

text \<open>A world like the previous one with the player never visible, where \<open>quit_extra_driver\<close> raises.\<close>

definition env_quit_fails :: env where
  "env_quit_fails = \<lparr>act = (\<lambda>n c. case c of quit_extra_driver h \<Rightarrow> Some (OtherException ''quit failed'') | _ \<Rightarrow> None),
     ask = (\<lambda>n c. Inr False),
     new_session = (\<lambda>n c. Inr n),
     http = (\<lambda>n c. Inr \<lparr>status_code = 200, reason = [], resp_url = ''https://www.twitch.tv/brutalles'', resp_text = ''{isLiveBroadcast:true}''\<rparr>),
     urljoin = (\<lambda>b u. b @ u)\<rparr>"

text \<open>A world where every query answers true: the consent button is there, the player stays visible.\<close>

definition env_forever :: env where
  "env_forever = \<lparr>act = (\<lambda>n c. None), ask = (\<lambda>n c. Inr True), new_session = (\<lambda>n c. Inr n),
     http = (\<lambda>n c. Inr \<lparr>status_code = 200, reason = [], resp_url = ''https://www.twitch.tv/brutalles'', resp_text = ''{isLiveBroadcast:true}''\<rparr>),
     urljoin = (\<lambda>b u. b @ u)\<rparr>"

text \<open>A world where the Accept button is in the page but nothing is visible.\<close>

definition env_hidden_button :: env where
  "env_hidden_button = \<lparr>act = (\<lambda>n c. None),
     ask = (\<lambda>n c. case c of is_element_present h sel \<Rightarrow> Inr True | _ \<Rightarrow> Inr False),
     new_session = (\<lambda>n c. Inr n),
     http = (\<lambda>n c. Inr \<lparr>status_code = 200, reason = [], resp_url = ''https://www.twitch.tv/brutalles'', resp_text = ''{isLiveBroadcast:true}''\<rparr>),
     urljoin = (\<lambda>b u. b @ u)\<rparr>"

text \<open>A world where opening the seleniumbase session raises the given exception.\<close>

definition env_sb_fails :: "exn \<Rightarrow> env" where
  "env_sb_fails e = \<lparr>act = (\<lambda>n c. None), ask = (\<lambda>n c. Inr False), new_session = (\<lambda>n c. Inl e),
     http = (\<lambda>n c. Inr \<lparr>status_code = 200, reason = [], resp_url = ''https://www.twitch.tv/brutalles'', resp_text = ''{isLiveBroadcast:true}''\<rparr>),
     urljoin = (\<lambda>b u. b @ u)\<rparr>"

text \<open>What an operation leaves alone in the \<open>StreamViewer\<close> object.\<close>

definition viewer_unchanged :: "state \<Rightarrow> state \<Rightarrow> bool" where
  "viewer_unchanged s s' =
     (browser s' = browser s \<and> secondary_browser s' = secondary_browser s \<and> cleanup_calls s' = cleanup_calls s)"

definition primary_unchanged :: "state \<Rightarrow> state \<Rightarrow> bool" where
  "primary_unchanged s s' =
     (browser s' = browser s \<and> cleanup_calls s' = cleanup_calls s \<and>
      (secondary_browser s' = secondary_browser s \<or> browser s \<noteq> None))"

text \<open>The HTTP requests and the requests for a second driver in a trace.\<close>

fun is_http_call :: "event \<Rightarrow> bool" where
  "is_http_call (Call (requests_get u h t)) = True"
| "is_http_call e = False"

fun is_new_driver :: "event \<Rightarrow> bool" where
  "is_new_driver (Call (get_new_driver b)) = True"
| "is_new_driver e = False"

section \<open>The retry decorator\<close>


lemma retry_on_exception_returns:
  "func s = (Inr v, s1) \<Longrightarrow> retry_on_exception E m w name func s = (Inr v, s1)"
  by (simp add: retry_on_exception_def wrapper_def retrying.simps)


text \<open>What one sleep does to the state.\<close>

lemma nap_sleep_cases:
  obtains (raised) e where "nap_sleep E d s = (Inl e, s\<lparr>clock := Suc (clock s)\<rparr>)"
    "SLEEP_MAX < d \<or> act E (clock s) (time_sleep d) = Some e"
  | (slept) "nap_sleep E d s = (Inr (), s\<lparr>clock := Suc (clock s), trace := trace s @ [TimeSleep d]\<rparr>)"
    "d \<le> SLEEP_MAX" "act E (clock s) (time_sleep d) = None"
  by (cases "SLEEP_MAX < d"; cases "act E (clock s) (time_sleep d)") (auto simp: nap_sleep_def)

text \<open>One step of the loop, in its three outcomes.\<close>

lemma retrying_step:
  assumes "fn s = (Inl e, s1)" "is_Exception e" "\<not> stop_after_attempt m n"
  shows "retrying E m w fn n s =
           (case nap_sleep E (retry_wait w n) s1 of
              (Inl e', s2) \<Rightarrow> (Inl e', s2)
            | (Inr u, s2) \<Rightarrow> retrying E m w fn (Suc n) s2)"
  using assms by (subst retrying.simps) simp

lemma retrying_stop:
  assumes "fn s = (r, s1)" "(\<exists>v. r = Inr v) \<or> (\<exists>e. r = Inl e \<and> \<not> is_Exception e)"
  shows "retrying E m w fn n s = (r, s1)"
  using assms by (subst retrying.simps) auto

lemma retrying_exhausted:
  assumes "fn s = (Inl e, s1)" "is_Exception e" "stop_after_attempt m n"
  shows "retrying E m w fn n s = (Inl (RetryError n e), s1)"
  using assms by (subst retrying.simps) simp

text \<open>
  An invariant of the loop: a property of pairs of states that every attempt and every
  sleep keeps, and that is reflexive and transitive, holds between the first and the last
  state.
\<close>

lemma retrying_invariant:
  assumes fn: "\<And>s. R s (snd (fn s))"
    and sl: "\<And>d s. R s (snd (nap_sleep E d s))"
    and tr: "\<And>a b c. R a b \<Longrightarrow> R b c \<Longrightarrow> R a c"
  shows "R s (snd (retrying E m w fn n s))"
  using fn sl
proof (induction E m w fn n s rule: retrying.induct)
  case (1 E m w fn n s)
  note fn = "1.prems"(1) and sl = "1.prems"(2)
  obtain r s1 where fs: "fn s = (r, s1)" by (cases "fn s")
  have u1: "R s s1" using fn[of s] fs by simp
  show ?case
  proof (cases "\<exists>e. r = Inl e \<and> is_Exception e")
    case False
    then have "retrying E m w fn n s = (r, s1)"
      using fs by (intro retrying_stop) (cases r; auto)+
    then show ?thesis using u1 by simp
  next
    case True
    then obtain e where e: "r = Inl e" "is_Exception e" by auto
    show ?thesis
    proof (cases "stop_after_attempt m n")
      case True
      then show ?thesis using retrying_exhausted[of fn s e s1 m n E w] fs e u1 by simp
    next
      case False
      obtain r2 s2 where ns: "nap_sleep E (retry_wait w n) s1 = (r2, s2)"
        by (cases "nap_sleep E (retry_wait w n) s1")
      have "R s1 s2"
        using sl[of s1 "retry_wait w n"] ns by simp
      with u1 have u2: "R s s2" by (rule tr)
      show ?thesis
      proof (cases r2)
        case (Inl e')
        then show ?thesis
          using retrying_step[of fn s e s1 m n E w] fs e False ns u2 by simp
      next
        case (Inr u)
        have "R s2 (snd (retrying E m w fn (Suc n) s2))"
          using "1.IH"[OF fs[symmetric] e(1) _ False ns[symmetric] Inr fn sl] e(2) by simp
        with u2 have "R s (snd (retrying E m w fn (Suc n) s2))" by (rule tr)
        then show ?thesis
          using retrying_step[of fn s e s1 m n E w] fs e False ns Inr by simp
      qed
    qed
  qed
qed

lemma evals: "str_int 3 = ''3''" "str_int 404 = ''404''"
  by (simp_all add: str_int_def str_nat.simps)

lemma check_func_boom:
  "check_twitch_stream_func env_boom u cfg s = (Inl (OtherException ''boom''), tick (twitch_request u cfg) s)"
  by (simp add: check_twitch_stream_func_def do_http_def env_boom_def)

lemma env_boom_act: "act env_boom n c = None"
  by (simp add: env_boom_def)

text \<open>
  C1. An operation that fails on every invocation, under the decorator's defaults: the
  GET of \<open>check_twitch_stream\<close> raises a non-request exception each time. The
  operation runs three times, each failure is logged, the waits are 2 and 4, and what
  reaches the caller is tenacity's \<open>RetryError\<close> around the wrapper's
  \<open>StreamViewerException\<close>, not a \<open>StreamViewerException\<close>: \<open>retry\<close> is used
  without \<open>reraise=True\<close>.
\<close>

theorem check_twitch_stream_exhausted_raises_RetryError:
  "fst (check_twitch_stream env_boom ''brutalles'' TwitchConfig_default StreamViewer_init) =
     Inl (RetryError 3 (StreamViewerException ''Failed after 3 attempts: boom''))
   \<and> trace (snd (check_twitch_stream env_boom ''brutalles'' TwitchConfig_default StreamViewer_init)) =
     [Call (requests_get ''https://www.twitch.tv/brutalles'' ''kimne78kx3ncx6brgo4mv6wki5h1ko'' 10),
      LogError ''Error in check_twitch_stream: boom'', TimeSleep 2,
      Call (requests_get ''https://www.twitch.tv/brutalles'' ''kimne78kx3ncx6brgo4mv6wki5h1ko'' 10),
      LogError ''Error in check_twitch_stream: boom'', TimeSleep 4,
      Call (requests_get ''https://www.twitch.tv/brutalles'' ''kimne78kx3ncx6brgo4mv6wki5h1ko'' 10),
      LogError ''Error in check_twitch_stream: boom'']"
  by (simp add: check_twitch_stream_def retry_on_exception_def wrapper_def check_func_boom
      tick_def StreamViewer_init_def TwitchConfig_default_def log_error_def
      stop_after_attempt_def nap_sleep_def SLEEP_MAX_def env_boom_act
      retry_wait_def wait_exponential_def MAX_WAIT_def evals retrying.simps)












section \<open>The liveness check\<close>

lemma http_error_msg_empty: "http_error_msg r = [] \<longleftrightarrow> \<not> (400 \<le> status_code r \<and> status_code r < 600)"
  by (auto simp: http_error_msg_def)

lemma check_func_response:
  "http E (clock s) (twitch_request user cfg) = Inr r \<Longrightarrow>
   check_twitch_stream_func E user cfg s =
     (if 400 \<le> status_code r \<and> status_code r < 600
      then (Inr False, log_error (''Failed to check Twitch stream status: '' @ http_error_msg r)
                        (tick (twitch_request user cfg) s))
      else (Inr (sublist (live_indicator cfg) (resp_text r)), tick (twitch_request user cfg) s))"
  by (simp add: check_twitch_stream_func_def do_http_def raise_for_status_def http_error_msg_empty)

lemma check_func_request_exception:
  "http E (clock s) (twitch_request user cfg) = Inl e \<Longrightarrow> is_RequestException e \<Longrightarrow>
   check_twitch_stream_func E user cfg s =
     (Inr False, log_error (''Failed to check Twitch stream status: '' @ str_exn e) (tick (twitch_request user cfg) s))"
  by (simp add: check_twitch_stream_func_def do_http_def)

lemma check_twitch_stream_returns:
  "check_twitch_stream_func E user cfg s = (Inr v, s1) \<Longrightarrow> check_twitch_stream E user cfg s = (Inr v, s1)"
  by (simp add: check_twitch_stream_def retry_on_exception_returns)

lemma check_twitch_stream_response:
  assumes "http E (clock s) (twitch_request user cfg) = Inr r"
  shows "check_twitch_stream E user cfg s =
     (if 400 \<le> status_code r \<and> status_code r < 600
      then (Inr False, log_error (''Failed to check Twitch stream status: '' @ http_error_msg r)
                        (tick (twitch_request user cfg) s))
      else (Inr (sublist (live_indicator cfg) (resp_text r)), tick (twitch_request user cfg) s))"
  using check_func_response[OF assms]
  by (simp add: check_twitch_stream_returns split: if_splits)

lemma check_twitch_stream_request_exception:
  assumes "http E (clock s) (twitch_request user cfg) = Inl e" "is_RequestException e"
  shows "check_twitch_stream E user cfg s =
     (Inr False, log_error (''Failed to check Twitch stream status: '' @ str_exn e) (tick (twitch_request user cfg) s))"
  using check_func_request_exception[OF assms]
  by (rule check_twitch_stream_returns)

text \<open>
  C3 (as amended). For a response, \<open>check_twitch_stream\<close> returns true exactly when the
  status is not a 4xx or 5xx one and the body contains the marker; so it returns false for
  every body without the marker. For a thrown \<open>RequestException\<close> it returns false.
\<close>

theorem check_twitch_stream_marker:
  "(http E (clock s) (twitch_request user cfg) = Inr r \<longrightarrow>
      fst (check_twitch_stream E user cfg s) =
        Inr (\<not> (400 \<le> status_code r \<and> status_code r < 600) \<and> sublist (live_indicator cfg) (resp_text r)))
   \<and> (http E (clock s) (twitch_request user cfg) = Inl e \<and> is_RequestException e \<longrightarrow>
      fst (check_twitch_stream E user cfg s) = Inr False)"
  by (simp add: check_twitch_stream_response check_twitch_stream_request_exception)

theorem check_twitch_stream_marker_witness:
  "http (env_resp 200 ''{isLiveBroadcast:true}'') (clock StreamViewer_init)
        (twitch_request ''brutalles'' TwitchConfig_default) =
     Inr \<lparr>status_code = 200, reason = [], resp_url = ''https://www.twitch.tv/brutalles'', resp_text = ''{isLiveBroadcast:true}''\<rparr>
   \<and> fst (check_twitch_stream (env_resp 200 ''{isLiveBroadcast:true}'') ''brutalles'' TwitchConfig_default
            StreamViewer_init) = Inr True
   \<and> http env_conn_err (clock StreamViewer_init) (twitch_request ''brutalles'' TwitchConfig_default) =
       Inl (RequestException ''ConnectionError'')
   \<and> is_RequestException (RequestException ''ConnectionError'')
   \<and> fst (check_twitch_stream env_conn_err ''brutalles'' TwitchConfig_default StreamViewer_init) = Inr False"
proof -
  have m: "sublist ''isLiveBroadcast'' ''{isLiveBroadcast:true}''"
    by code_simp
  have h1: "http (env_resp 200 ''{isLiveBroadcast:true}'') (clock StreamViewer_init)
        (twitch_request ''brutalles'' TwitchConfig_default) =
     Inr \<lparr>status_code = 200, reason = [], resp_url = ''https://www.twitch.tv/brutalles'', resp_text = ''{isLiveBroadcast:true}''\<rparr>"
    by (simp add: env_resp_def)
  have h2: "http env_conn_err (clock StreamViewer_init) (twitch_request ''brutalles'' TwitchConfig_default) =
       Inl (RequestException ''ConnectionError'')"
    by (simp add: env_conn_err_def)
  from check_twitch_stream_marker[of "env_resp 200 ''{isLiveBroadcast:true}''" StreamViewer_init
         "''brutalles''" TwitchConfig_default "\<lparr>status_code = 200, reason = [], resp_url = ''https://www.twitch.tv/brutalles'', resp_text = ''{isLiveBroadcast:true}''\<rparr>"]
       h1 m
  have t1: "fst (check_twitch_stream (env_resp 200 ''{isLiveBroadcast:true}'') ''brutalles'' TwitchConfig_default
            StreamViewer_init) = Inr True"
    by (simp add: TwitchConfig_default_def)
  from check_twitch_stream_marker[of env_conn_err StreamViewer_init "''brutalles''" TwitchConfig_default _
         "RequestException ''ConnectionError''"] h2
  have t2: "fst (check_twitch_stream env_conn_err ''brutalles'' TwitchConfig_default StreamViewer_init) = Inr False"
    by simp
  from h1 h2 t1 t2 show ?thesis by simp
qed

text \<open>
  C3 as stated fails: a 404 response whose body contains the marker gives false.
\<close>

theorem check_twitch_stream_error_status_counterexample:
  "sublist (live_indicator TwitchConfig_default) ''{isLiveBroadcast:true}''
   \<and> fst (check_twitch_stream (env_resp 404 ''{isLiveBroadcast:true}'') ''brutalles'' TwitchConfig_default StreamViewer_init)
       = Inr False"
proof -
  have "sublist ''isLiveBroadcast'' ''{isLiveBroadcast:true}''"
    by code_simp
  moreover have "http (env_resp 404 ''{isLiveBroadcast:true}'') (clock StreamViewer_init) (twitch_request ''brutalles'' TwitchConfig_default)
      = Inr \<lparr>status_code = 404, reason = [], resp_url = ''https://www.twitch.tv/brutalles'', resp_text = ''{isLiveBroadcast:true}''\<rparr>"
    by (simp add: env_resp_def)
  ultimately show ?thesis
    by (simp add: check_twitch_stream_response TwitchConfig_default_def)
qed

text \<open>
  C6 (as amended). When the GET raises a \<open>RequestException\<close> (transport error, timeout)
  or answers with a 4xx or 5xx status, \<open>check_twitch_stream\<close> raises nothing: after that
  one request it logs the failure and returns false.
\<close>

theorem check_twitch_stream_swallows:
  assumes "case http E (clock s) (twitch_request user cfg) of
             Inl e \<Rightarrow> is_RequestException e
           | Inr r \<Rightarrow> 400 \<le> status_code r \<and> status_code r < 600"
  shows "\<exists>msg. check_twitch_stream E user cfg s =
           (Inr False, log_error (''Failed to check Twitch stream status: '' @ msg) (tick (twitch_request user cfg) s))"
proof (cases "http E (clock s) (twitch_request user cfg)")
  case (Inl e)
  then have "is_RequestException e" using assms by simp
  from check_twitch_stream_request_exception[OF Inl this]
  show ?thesis by blast
next
  case (Inr r)
  then have "400 \<le> status_code r \<and> status_code r < 600" using assms by simp
  with check_twitch_stream_response[OF Inr]
  show ?thesis by auto
qed

theorem check_twitch_stream_swallows_witness:
  "(case http env_conn_err (clock StreamViewer_init) (twitch_request ''brutalles'' TwitchConfig_default) of
      Inl e \<Rightarrow> is_RequestException e
    | Inr r \<Rightarrow> 400 \<le> status_code r \<and> status_code r < 600)
   \<and> (\<exists>msg. check_twitch_stream env_conn_err ''brutalles'' TwitchConfig_default StreamViewer_init =
          (Inr False, log_error (''Failed to check Twitch stream status: '' @ msg)
                        (tick (twitch_request ''brutalles'' TwitchConfig_default) StreamViewer_init)))
   \<and> (case http (env_resp 503 ''busy'') (clock StreamViewer_init) (twitch_request ''brutalles'' TwitchConfig_default) of
      Inl e \<Rightarrow> is_RequestException e
    | Inr r \<Rightarrow> 400 \<le> status_code r \<and> status_code r < 600)
   \<and> (\<exists>msg. check_twitch_stream (env_resp 503 ''busy'') ''brutalles'' TwitchConfig_default StreamViewer_init =
          (Inr False, log_error (''Failed to check Twitch stream status: '' @ msg)
                        (tick (twitch_request ''brutalles'' TwitchConfig_default) StreamViewer_init)))"
proof -
  have h1: "case http env_conn_err (clock StreamViewer_init) (twitch_request ''brutalles'' TwitchConfig_default) of
      Inl e \<Rightarrow> is_RequestException e
    | Inr r \<Rightarrow> 400 \<le> status_code r \<and> status_code r < 600"
    by (simp add: env_conn_err_def)
  have h2: "case http (env_resp 503 ''busy'') (clock StreamViewer_init) (twitch_request ''brutalles'' TwitchConfig_default) of
      Inl e \<Rightarrow> is_RequestException e
    | Inr r \<Rightarrow> 400 \<le> status_code r \<and> status_code r < 600"
    by (simp add: env_resp_def)
  from h1 h2 check_twitch_stream_swallows[OF h1] check_twitch_stream_swallows[OF h2]
  show ?thesis by blast
qed

text \<open>
  C6 as stated fails for a status that is neither a success nor a 4xx or 5xx one: a 300
  response whose body contains the marker gives true.
\<close>

theorem check_twitch_stream_redirect_status_counterexample:
  "fst (check_twitch_stream (env_resp 300 ''{isLiveBroadcast:true}'') ''brutalles'' TwitchConfig_default StreamViewer_init)
       = Inr True"
proof -
  have "sublist ''isLiveBroadcast'' ''{isLiveBroadcast:true}''"
    by code_simp
  moreover have "http (env_resp 300 ''{isLiveBroadcast:true}'') (clock StreamViewer_init) (twitch_request ''brutalles'' TwitchConfig_default)
      = Inr \<lparr>status_code = 300, reason = [], resp_url = ''https://www.twitch.tv/brutalles'', resp_text = ''{isLiveBroadcast:true}''\<rparr>"
    by (simp add: env_resp_def)
  ultimately show ?thesis
    by (simp add: check_twitch_stream_response TwitchConfig_default_def)
qed

section \<open>Running the model on the example worlds\<close>

lemmas run_defs = watch_stream_def watch_stream_try_def watch_stream_with_def initialize_stream_viewing_def
  handle_captcha_and_consent_def setup_secondary_viewer_def watch_kick_stream_def watch_twitch_stream_def
  cleanup_def bind_def do_act_def do_ask_def do_new_def do_http_def tick_def log_info_def log_error_def
  StreamViewer_init_def kick_config_def twitch_config_def stream_url_def Let_def

lemma marker_in_body: "sublist ''isLiveBroadcast'' ''{isLiveBroadcast:true}''"
  by code_simp

lemma run_twitch_live:
  "watch_stream (env_kick_live 0) twitch_config StreamViewer_init =
   Some (Inr (),
     \<lparr>browser = Some 0, secondary_browser = None, clock = 17,
      trace =
        [Call SB_enter, LogInfo ''Attempting to watch stream on twitch'',
         Call (uc_open_with_reconnect 0 ''https://www.twitch.tv/brutalles'' 4),
         Call (sleep 0 1), Call (uc_gui_click_captcha 0), Call (uc_gui_handle_captcha 0), Call (sleep 0 4),
         Call (is_element_present 0 accept_button),
         Call (requests_get ''https://www.twitch.tv/brutalles'' ''kimne78kx3ncx6brgo4mv6wki5h1ko'' 10),
         Call (get_new_driver 0),
         Call (uc_open_with_reconnect 8 ''https://www.twitch.tv/brutalles'' 5),
         Call (sleep 8 1), Call (uc_gui_click_captcha 8), Call (uc_gui_handle_captcha 8), Call (sleep 8 4),
         Call (is_element_present 8 accept_button),
         Call (SB_exit 0), Call (quit_extra_driver 0)],
      cleanup_calls = 1\<rparr>)"
  by (simp add: run_defs env_kick_live_def check_twitch_stream_response TwitchConfig_default_def marker_in_body)

lemma run_kick_live:
  "watch_stream (env_kick_live 20) kick_config StreamViewer_init =
   Some (Inr (),
     \<lparr>browser = Some 0, secondary_browser = None, clock = 24,
      trace =
        [Call SB_enter, LogInfo ''Attempting to watch stream on kick'',
         Call (uc_open_with_reconnect 0 ''https://kick.com/brutalles'' 4),
         Call (sleep 0 1), Call (uc_gui_click_captcha 0), Call (uc_gui_handle_captcha 0), Call (sleep 0 4),
         Call (is_element_present 0 accept_button),
         Call (is_element_visible 0 player),
         Call (get_new_driver 0),
         Call (uc_open_with_reconnect 8 ''https://kick.com/brutalles'' 5),
         Call (sleep 8 1), Call (uc_gui_click_captcha 8), Call (uc_gui_handle_captcha 8), Call (sleep 8 4),
         Call (is_element_present 8 accept_button),
         Call (is_element_visible 0 player), Call (sleep 0 10),
         Call (is_element_visible 0 player), Call (sleep 0 10),
         Call (is_element_visible 0 player), Call (sleep 0 10),
         Call (is_element_visible 0 player),
         Call (SB_exit 0), Call (quit_extra_driver 0)],
      cleanup_calls = 1\<rparr>)"
  by (simp add: run_defs env_kick_live_def kick_poll.simps)

lemma run_twitch_quit_fails:
  "watch_stream env_quit_fails twitch_config StreamViewer_init =
   Some (Inl (OtherException ''quit failed''),
     \<lparr>browser = Some 0, secondary_browser = Some 8, clock = 17,
      trace =
        [Call SB_enter, LogInfo ''Attempting to watch stream on twitch'',
         Call (uc_open_with_reconnect 0 ''https://www.twitch.tv/brutalles'' 4),
         Call (sleep 0 1), Call (uc_gui_click_captcha 0), Call (uc_gui_handle_captcha 0), Call (sleep 0 4),
         Call (is_element_present 0 accept_button),
         Call (requests_get ''https://www.twitch.tv/brutalles'' ''kimne78kx3ncx6brgo4mv6wki5h1ko'' 10),
         Call (get_new_driver 0),
         Call (uc_open_with_reconnect 8 ''https://www.twitch.tv/brutalles'' 5),
         Call (sleep 8 1), Call (uc_gui_click_captcha 8), Call (uc_gui_handle_captcha 8), Call (sleep 8 4),
         Call (is_element_present 8 accept_button),
         Call (SB_exit 0), Call (quit_extra_driver 0)],
      cleanup_calls = 1\<rparr>)"
  by (simp add: run_defs env_quit_fails_def check_twitch_stream_response TwitchConfig_default_def marker_in_body)

lemma run_kick_offline:
  assumes "\<And>n c. act E n c = None" "\<And>n c. ask E n c = Inr False" "\<And>n c. new_session E n c = Inr n"
  shows "\<exists>sa. watch_stream E kick_config StreamViewer_init = Some (Inr (), sa)"
  by (simp add: run_defs assms)

lemma kick_poll_forever:
  assumes "\<And>n c. ask E n c = Inr True" "\<And>n c. act E n c = None" "browser s \<noteq> None"
  shows "kick_poll E s = None"
proof (rule ccontr)
  assume "kick_poll E s \<noteq> None"
  then obtain y where y: "kick_poll E s = Some y" by auto
  have "E = E \<longrightarrow> browser s \<noteq> None \<longrightarrow> False"
  proof (rule kick_poll.raw_induct[where P = "\<lambda>E' s y. E' = E \<longrightarrow> browser s \<noteq> None \<longrightarrow> False", OF _ y])
    fix kp E' s y
    assume IH: "\<And>E' s y. kp E' s = Some y \<Longrightarrow> E' = E \<longrightarrow> browser s \<noteq> None \<longrightarrow> False"
      and body: "(case browser s of
        None \<Rightarrow> Some (Inl AttributeError, s)
      | Some b \<Rightarrow>
          (case do_ask E' (is_element_visible b player) s of
             (Inl e, s1) \<Rightarrow> Some (Inl e, s1)
           | (Inr visible, s1) \<Rightarrow>
               if visible
               then (case do_act E' (sleep b 10) s1 of
                       (Inl e, s2) \<Rightarrow> Some (Inl e, s2)
                     | (Inr u, s2) \<Rightarrow> kp E' s2)
               else Some (Inr (), s1))) = Some y"
    show "E' = E \<longrightarrow> browser s \<noteq> None \<longrightarrow> False"
    proof (intro impI)
      assume E: "E' = E" and b: "browser s \<noteq> None"
      then obtain h where h: "browser s = Some h" by auto
      let ?s2 = "tick (sleep h 10) (tick (is_element_visible h player) s)"
      have "kp E ?s2 = Some y"
        using body h E assms(1,2) by (simp add: do_ask_def do_act_def)
      from IH[OF this] h show False by (simp add: tick_def)
    qed
  qed
  with assms(3) show False by simp
qed

lemma run_kick_forever: "watch_stream env_forever kick_config StreamViewer_init = None"
proof -
  have "kick_poll env_forever s = None" if "browser s \<noteq> None" for s
    by (rule kick_poll_forever) (simp_all add: env_forever_def that)
  moreover have "act env_forever n c = None" "ask env_forever n c = Inr True"
    "new_session env_forever n c = Inr n" "urljoin env_forever x z = x @ z" for n c x z
    by (simp_all add: env_forever_def)
  ultimately show ?thesis
    by (simp add: run_defs)
qed

lemma run_sb_fails:
  "watch_stream (env_sb_fails e) c StreamViewer_init =
     Some (Inl e, (if is_Exception e then log_error (''Error during stream viewing: '' @ str_exn e) else id)
                    (tick SB_enter StreamViewer_init)\<lparr>cleanup_calls := 1\<rparr>)"
  by (simp add: watch_stream_def watch_stream_try_def watch_stream_with_def do_new_def env_sb_fails_def
        cleanup_def Let_def tick_def log_error_def StreamViewer_init_def)

lemma check_twitch_stream_boom:
  "\<exists>e sb. check_twitch_stream env_boom u cfg s = (Inl (RetryError 3 e), sb)"
  by (simp add: check_twitch_stream_def retry_on_exception_def wrapper_def check_func_boom
      retrying.simps stop_after_attempt_def nap_sleep_def SLEEP_MAX_def env_boom_act
      retry_wait_def wait_exponential_def MAX_WAIT_def)

section \<open>Challenge handling\<close>

text \<open>
  C8 (as amended). When the two pauses and the two captcha calls return, the consent
  check comes right after the settle pause and is \<open>is_element_present\<close>: it asks whether
  the control is in the page, visible or not. The click follows exactly when that check
  found the control, and without the control the step returns normally.
\<close>

theorem handle_captcha_and_consent_click:
  assumes "act E (clock s) (sleep b 1) = None"
      and "act E (clock s + 1) (uc_gui_click_captcha b) = None"
      and "act E (clock s + 2) (uc_gui_handle_captcha b) = None"
      and "act E (clock s + 3) (sleep b rt) = None"
      and "ask E (clock s + 4) (is_element_present b accept_button) = Inr present"
  shows "trace (snd (handle_captcha_and_consent E b rt s)) =
           trace s @ [Call (sleep b 1), Call (uc_gui_click_captcha b), Call (uc_gui_handle_captcha b),
                      Call (sleep b rt), Call (is_element_present b accept_button)]
                   @ (if present then [Call (uc_click b accept_button rt)] else [])
         \<and> (\<not> present \<longrightarrow> fst (handle_captcha_and_consent E b rt s) = Inr ())"
  using assms
  by (simp add: handle_captcha_and_consent_def bind_def do_act_def do_ask_def tick_def eval_nat_numeral split: option.splits)

theorem handle_captcha_and_consent_click_witness:
  "act (env_kick_live 0) (clock StreamViewer_init) (sleep 0 1) = None
   \<and> act (env_kick_live 0) (clock StreamViewer_init + 1) (uc_gui_click_captcha 0) = None
   \<and> act (env_kick_live 0) (clock StreamViewer_init + 2) (uc_gui_handle_captcha 0) = None
   \<and> act (env_kick_live 0) (clock StreamViewer_init + 3) (sleep 0 4) = None
   \<and> ask (env_kick_live 0) (clock StreamViewer_init + 4) (is_element_present 0 accept_button) = Inr False
   \<and> trace (snd (handle_captcha_and_consent (env_kick_live 0) 0 4 StreamViewer_init)) =
        [Call (sleep 0 1), Call (uc_gui_click_captcha 0), Call (uc_gui_handle_captcha 0),
         Call (sleep 0 4), Call (is_element_present 0 accept_button)]
   \<and> fst (handle_captcha_and_consent (env_kick_live 0) 0 4 StreamViewer_init) = Inr ()
   \<and> act env_forever (clock StreamViewer_init) (sleep 0 1) = None
   \<and> act env_forever (clock StreamViewer_init + 1) (uc_gui_click_captcha 0) = None
   \<and> act env_forever (clock StreamViewer_init + 2) (uc_gui_handle_captcha 0) = None
   \<and> act env_forever (clock StreamViewer_init + 3) (sleep 0 4) = None
   \<and> ask env_forever (clock StreamViewer_init + 4) (is_element_present 0 accept_button) = Inr True
   \<and> trace (snd (handle_captcha_and_consent env_forever 0 4 StreamViewer_init)) =
        [Call (sleep 0 1), Call (uc_gui_click_captcha 0), Call (uc_gui_handle_captcha 0),
         Call (sleep 0 4), Call (is_element_present 0 accept_button), Call (uc_click 0 accept_button 4)]"
proof -
  have a: "act (env_kick_live 0) n c = None" "act env_forever n c = None" for n c
    by (simp_all add: env_kick_live_def env_forever_def)
  have f: "ask (env_kick_live 0) (clock StreamViewer_init + 4) (is_element_present 0 accept_button) = Inr False"
    by (simp add: env_kick_live_def)
  have g: "ask env_forever (clock StreamViewer_init + 4) (is_element_present 0 accept_button) = Inr True"
    by (simp add: env_forever_def)
  have t: "trace StreamViewer_init = []"
    by (simp add: StreamViewer_init_def)
  from handle_captcha_and_consent_click[OF a(1) a(1) a(1) a(1) f]
       handle_captcha_and_consent_click[OF a(2) a(2) a(2) a(2) g] a f g t
  show ?thesis by simp
qed

text \<open>
  C8 as stated fails: a control that is in the page but not visible is clicked.
\<close>

theorem hidden_consent_button_clicked_counterexample:
  "ask env_hidden_button 4 (is_element_visible 0 accept_button) = Inr False
   \<and> trace (snd (handle_captcha_and_consent env_hidden_button 0 4 StreamViewer_init)) =
        [Call (sleep 0 1), Call (uc_gui_click_captcha 0), Call (uc_gui_handle_captcha 0),
         Call (sleep 0 4), Call (is_element_present 0 accept_button), Call (uc_click 0 accept_button 4)]"
  by (simp add: handle_captcha_and_consent_def bind_def do_act_def do_ask_def tick_def
      env_hidden_button_def StreamViewer_init_def)

section \<open>The secondary session\<close>

text \<open>
  C4. On twitch, with a positive liveness check and nothing raising, the second session is
  opened at the same address and taken through challenge handling, and then
  \<open>watch_stream\<close> is over: no visibility query, no sleep of 10, the session is torn
  down at once. On kick the same world, with the player visible for a while, shows the
  poll the twitch path lacks.
\<close>

theorem watch_twitch_stream_no_poll:
  "map_option (\<lambda>r. (fst r, trace (snd r))) (watch_stream (env_kick_live 0) twitch_config StreamViewer_init) =
   Some (Inr (),
     [Call SB_enter, LogInfo ''Attempting to watch stream on twitch'',
      Call (uc_open_with_reconnect 0 ''https://www.twitch.tv/brutalles'' 4),
      Call (sleep 0 1), Call (uc_gui_click_captcha 0), Call (uc_gui_handle_captcha 0), Call (sleep 0 4),
      Call (is_element_present 0 accept_button),
      Call (requests_get ''https://www.twitch.tv/brutalles'' ''kimne78kx3ncx6brgo4mv6wki5h1ko'' 10),
      Call (get_new_driver 0),
      Call (uc_open_with_reconnect 8 ''https://www.twitch.tv/brutalles'' 5),
      Call (sleep 8 1), Call (uc_gui_click_captcha 8), Call (uc_gui_handle_captcha 8), Call (sleep 8 4),
      Call (is_element_present 8 accept_button),
      Call (SB_exit 0), Call (quit_extra_driver 0)])
   \<and> map_option (\<lambda>r. (fst r, trace (snd r))) (watch_stream (env_kick_live 20) kick_config StreamViewer_init) =
   Some (Inr (),
     [Call SB_enter, LogInfo ''Attempting to watch stream on kick'',
      Call (uc_open_with_reconnect 0 ''https://kick.com/brutalles'' 4),
      Call (sleep 0 1), Call (uc_gui_click_captcha 0), Call (uc_gui_handle_captcha 0), Call (sleep 0 4),
      Call (is_element_present 0 accept_button),
      Call (is_element_visible 0 player),
      Call (get_new_driver 0),
      Call (uc_open_with_reconnect 8 ''https://kick.com/brutalles'' 5),
      Call (sleep 8 1), Call (uc_gui_click_captcha 8), Call (uc_gui_handle_captcha 8), Call (sleep 8 4),
      Call (is_element_present 8 accept_button),
      Call (is_element_visible 0 player), Call (sleep 0 10),
      Call (is_element_visible 0 player), Call (sleep 0 10),
      Call (is_element_visible 0 player), Call (sleep 0 10),
      Call (is_element_visible 0 player),
      Call (SB_exit 0), Call (quit_extra_driver 0)])"
  by (simp add: run_twitch_live run_kick_live)

section \<open>What the operations leave unchanged\<close>

lemma viewer_unchanged_refl: "viewer_unchanged s s"
  by (simp add: viewer_unchanged_def)

lemma viewer_unchanged_trans: "viewer_unchanged s s1 \<Longrightarrow> viewer_unchanged s1 s2 \<Longrightarrow> viewer_unchanged s s2"
  by (simp add: viewer_unchanged_def)

lemma viewer_unchanged_tick: "viewer_unchanged s (tick c s)"
  by (simp add: viewer_unchanged_def tick_def)

lemma viewer_unchanged_trace: "viewer_unchanged s (s\<lparr>trace := t\<rparr>)"
  by (simp add: viewer_unchanged_def)

lemma viewer_unchanged_primary: "viewer_unchanged s s' \<Longrightarrow> primary_unchanged s s'"
  by (simp add: viewer_unchanged_def primary_unchanged_def)

lemma primary_unchanged_trans: "primary_unchanged s s1 \<Longrightarrow> primary_unchanged s1 s2 \<Longrightarrow> primary_unchanged s s2"
  by (auto simp: primary_unchanged_def)

lemma handle_captcha_and_consent_frame:
  "viewer_unchanged s (snd (handle_captcha_and_consent E b rt s))"
  by (simp add: handle_captcha_and_consent_def bind_def do_act_def do_ask_def tick_def viewer_unchanged_def
           split: option.splits sum.splits)

lemma initialize_stream_viewing_frame:
  "viewer_unchanged s (snd (initialize_stream_viewing E c s))"
proof (cases "browser s")
  case None
  then show ?thesis by (simp add: initialize_stream_viewing_def viewer_unchanged_refl)
next
  case (Some b)
  have "viewer_unchanged (tick (uc_open_with_reconnect b (stream_url E c) 4) s)
          (snd (handle_captcha_and_consent E b 4 (tick (uc_open_with_reconnect b (stream_url E c) 4) s)))"
    by (rule handle_captcha_and_consent_frame)
  then have "viewer_unchanged s
          (snd (handle_captcha_and_consent E b 4 (tick (uc_open_with_reconnect b (stream_url E c) 4) s)))"
    by (rule viewer_unchanged_trans[OF viewer_unchanged_tick])
  then show ?thesis using Some
    by (simp add: initialize_stream_viewing_def bind_def do_act_def viewer_unchanged_tick split: option.splits)
qed

lemma wrapper_frame:
  assumes "\<And>s. viewer_unchanged s (snd (func s))"
  shows "viewer_unchanged s (snd (wrapper m name func s))"
  using assms[of s]
  by (auto simp: wrapper_def log_error_def viewer_unchanged_def split: prod.splits sum.splits)

lemma nap_sleep_frame: "viewer_unchanged s (snd (nap_sleep E d s))"
  by (cases rule: nap_sleep_cases[where E = E and d = d and s = s]) (simp_all add: viewer_unchanged_def)

lemma retrying_frame:
  assumes "\<And>s. viewer_unchanged s (snd (fn s))"
  shows "viewer_unchanged s (snd (retrying E m w fn n s))"
  by (rule retrying_invariant[where R = viewer_unchanged])
     (simp_all add: assms nap_sleep_frame, simp add: viewer_unchanged_def)

lemma check_twitch_stream_func_frame:
  "viewer_unchanged s (snd (check_twitch_stream_func E user cfg s))"
  by (simp add: check_twitch_stream_func_def do_http_def tick_def log_error_def viewer_unchanged_def
           split: sum.splits option.splits)

lemma check_twitch_stream_frame:
  "viewer_unchanged s (snd (check_twitch_stream E user cfg s))"
  unfolding check_twitch_stream_def retry_on_exception_def
  by (intro retrying_frame wrapper_frame check_twitch_stream_func_frame)

lemma setup_secondary_viewer_frame:
  "primary_unchanged s (snd (setup_secondary_viewer E c s))"
proof (cases "browser s")
  case None
  then show ?thesis by (simp add: setup_secondary_viewer_def primary_unchanged_def)
next
  case (Some b)
  show ?thesis
  proof (cases "new_session E (clock s) (get_new_driver b)")
    case (Inl e)
    then show ?thesis using Some
      by (simp add: setup_secondary_viewer_def bind_def do_new_def tick_def primary_unchanged_def)
  next
    case (Inr h)
    let ?s1 = "(tick (get_new_driver b) s)\<lparr>secondary_browser := Some h\<rparr>"
    let ?s2 = "tick (uc_open_with_reconnect h (stream_url E c) 5) ?s1"
    have "viewer_unchanged ?s2 (snd (handle_captcha_and_consent E h 4 ?s2))"
      by (rule handle_captcha_and_consent_frame)
    then have "primary_unchanged s (snd (handle_captcha_and_consent E h 4 ?s2))"
      using Some by (simp add: viewer_unchanged_def primary_unchanged_def tick_def)
    then show ?thesis using Some Inr
      by (simp add: setup_secondary_viewer_def bind_def do_new_def do_act_def primary_unchanged_def tick_def
               split: option.splits)
  qed
qed

lemma kick_poll_frame:
  assumes "kick_poll E s = Some y"
  shows "viewer_unchanged s (snd y)"
proof (rule kick_poll.raw_induct[where P = "\<lambda>E s y. viewer_unchanged s (snd y)", OF _ assms])
  fix kp E s y
  assume IH: "\<And>E s y. kp E s = Some y \<Longrightarrow> viewer_unchanged s (snd y)"
    and body: "(case browser s of
        None \<Rightarrow> Some (Inl AttributeError, s)
      | Some b \<Rightarrow>
          (case do_ask E (is_element_visible b player) s of
             (Inl e, s1) \<Rightarrow> Some (Inl e, s1)
           | (Inr visible, s1) \<Rightarrow>
               if visible
               then (case do_act E (sleep b 10) s1 of
                       (Inl e, s2) \<Rightarrow> Some (Inl e, s2)
                     | (Inr u, s2) \<Rightarrow> kp E s2)
               else Some (Inr (), s1))) = Some y"
  show "viewer_unchanged s (snd y)"
  proof (cases "browser s")
    case None
    then show ?thesis using body by (auto simp: viewer_unchanged_def)
  next
    case (Some b)
    let ?s1 = "tick (is_element_visible b player) s"
    let ?s2 = "tick (sleep b 10) ?s1"
    have u2: "viewer_unchanged s ?s1" "viewer_unchanged s ?s2"
      by (simp_all add: viewer_unchanged_def tick_def)
    show ?thesis
    proof (cases "ask E (clock s) (is_element_visible b player) = Inr True
                  \<and> act E (clock ?s1) (sleep b 10) = None")
      case True
      then have "kp E ?s2 = Some y"
        using body Some by (simp add: do_ask_def do_act_def)
      from IH[OF this] u2(2) show ?thesis by (rule viewer_unchanged_trans[rotated])
    next
      case False
      then have "snd y = ?s1 \<or> snd y = ?s2"
        using body Some
        by (auto simp: do_ask_def do_act_def split: sum.splits if_splits option.splits)
      then show ?thesis using u2 by auto
    qed
  qed
qed


lemma watch_kick_stream_frame:
  assumes "watch_kick_stream E c s = Some y"
  shows "primary_unchanged s (snd y)"
proof (cases "browser s")
  case None
  then show ?thesis using assms by (auto simp: watch_kick_stream_def primary_unchanged_def)
next
  case (Some b)
  let ?s1 = "tick (is_element_visible b player) s"
  have u1: "primary_unchanged s ?s1" by (simp add: primary_unchanged_def tick_def)
  obtain r2 s2 where st: "setup_secondary_viewer E c ?s1 = (r2, s2)"
    by (cases "setup_secondary_viewer E c ?s1")
  have u2: "primary_unchanged s s2"
    using primary_unchanged_trans[OF u1 setup_secondary_viewer_frame[of ?s1 E c]] st by simp
  have a: "(case ask E (clock s) (is_element_visible b player) of
              Inl e \<Rightarrow> Some (Inl e, ?s1)
            | Inr v \<Rightarrow> if v then (case r2 of Inl e \<Rightarrow> Some (Inl e, s2) | Inr u \<Rightarrow> kick_poll E s2)
                       else Some (Inr (), ?s1)) = Some y"
    using assms Some by (auto simp: watch_kick_stream_def do_ask_def st split: sum.splits if_splits)
  show ?thesis
  proof (cases "ask E (clock s) (is_element_visible b player) = Inr True \<and> (\<exists>u. r2 = Inr u)")
    case True
    then have "kick_poll E s2 = Some y"
      using a by auto
    from kick_poll_frame[OF this]
    have "primary_unchanged s2 (snd y)"
      by (rule viewer_unchanged_primary)
    with u2 show ?thesis by (rule primary_unchanged_trans)
  next
    case False
    then have "snd y = ?s1 \<or> snd y = s2"
      using a by (auto split: sum.splits if_splits)
    then show ?thesis
      using u1 u2 by auto
  qed
qed

lemma watch_twitch_stream_frame:
  "primary_unchanged s (snd (watch_twitch_stream E c s))"
proof -
  let ?r = "check_twitch_stream E (username c) TwitchConfig_default s"
  have u1: "primary_unchanged s (snd ?r)"
    by (rule viewer_unchanged_primary[OF check_twitch_stream_frame])
  have "snd (watch_twitch_stream E c s) = snd ?r
        \<or> snd (watch_twitch_stream E c s) = snd (setup_secondary_viewer E c (snd ?r))"
    by (auto simp: watch_twitch_stream_def bind_def split: prod.splits sum.splits)
  then show ?thesis
    using u1 primary_unchanged_trans[OF u1 setup_secondary_viewer_frame[of "snd ?r" E c]] by auto
qed

lemma watch_stream_with_frame:
  assumes "watch_stream_with E c s = Some (r, s1)"
  shows "cleanup_calls s1 = cleanup_calls s
         \<and> (secondary_browser s = None \<longrightarrow> secondary_browser s1 \<noteq> None \<longrightarrow> browser s1 \<noteq> None)"
proof (cases "new_session E (clock s) SB_enter")
  case (Inl e)
  then show ?thesis using assms by (auto simp: watch_stream_with_def do_new_def tick_def)
next
  case (Inr b)
  let ?s2 = "log_info (''Attempting to watch stream on '' @ platform c) ((tick SB_enter s)\<lparr>browser := Some b\<rparr>)"
  let ?body = "case initialize_stream_viewing E c ?s2 of
                (Inl e, s2) \<Rightarrow> Some (Inl e, s2)
              | (Inr u, s2) \<Rightarrow>
                  if platform c = ''kick'' then watch_kick_stream E c s2
                  else if platform c = ''twitch'' then Some (watch_twitch_stream E c s2)
                  else Some (Inr (), s2)"
  obtain r3 s3 where b3: "?body = Some (r3, s3)" and s1: "s1 = tick (SB_exit b) s3"
    using assms Inr
    by (auto simp: watch_stream_with_def do_new_def do_act_def Let_def
             split: option.splits prod.splits sum.splits if_splits)
  let ?i = "initialize_stream_viewing E c ?s2"
  have ui: "primary_unchanged ?s2 (snd ?i)"
    by (rule viewer_unchanged_primary[OF initialize_stream_viewing_frame])
  have "primary_unchanged (snd ?i) s3 \<or> s3 = snd ?i"
    using b3 watch_kick_stream_frame[of E c "snd ?i" "(r3, s3)"] watch_twitch_stream_frame[of "snd ?i" E c]
    by (auto split: prod.splits sum.splits if_splits)
  then have "primary_unchanged ?s2 s3"
    using ui primary_unchanged_trans[OF ui] by auto
  then show ?thesis
    using s1 by (simp add: primary_unchanged_def tick_def log_info_def)
qed

lemma watch_stream_try_frame:
  assumes "watch_stream_try E c s = Some (r, s1)"
  shows "cleanup_calls s1 = cleanup_calls s
         \<and> (secondary_browser s = None \<longrightarrow> secondary_browser s1 \<noteq> None \<longrightarrow> browser s1 \<noteq> None)"
proof -
  obtain s0 where w: "watch_stream_with E c s = Some (r, s0)"
    and s1: "s1 = s0 \<or> (\<exists>m. s1 = log_error m s0)"
    using assms
    by (auto simp: watch_stream_try_def split: option.splits prod.splits sum.splits if_splits)
  from watch_stream_with_frame[OF w] s1 show ?thesis
    by (auto simp: log_error_def)
qed

lemma cleanup_calls_cleanup: "cleanup_calls (snd (cleanup E s)) = Suc (cleanup_calls s)"
  by (simp add: cleanup_def bind_def do_act_def tick_def Let_def split: option.splits)

lemma cleanup_no_secondary:
  "secondary_browser s = None \<Longrightarrow> cleanup E s = (Inr (), s\<lparr>cleanup_calls := Suc (cleanup_calls s)\<rparr>)"
  by (simp add: cleanup_def Let_def)

lemma cleanup_returns: "fst (cleanup E s) = Inr u \<Longrightarrow> secondary_browser (snd (cleanup E s)) = None"
  by (auto simp: cleanup_def bind_def do_act_def tick_def Let_def split: option.splits)

lemma watch_stream_cases:
  assumes "watch_stream E c s = Some (r, s')"
  obtains r1 s1 where "watch_stream_try E c s = Some (r1, s1)" "s' = snd (cleanup E s1)"
    "fst (cleanup E s1) = Inr () \<and> r = r1 \<or> (\<exists>e. fst (cleanup E s1) = Inl e \<and> r = Inl e)"
  using assms
  by (auto simp: watch_stream_def split: option.splits prod.splits sum.splits)

section \<open>Cleanup\<close>

text \<open>
  C5. Whenever \<open>watch_stream\<close> returns or raises, \<open>_cleanup\<close> has been entered exactly
  once more than before; with no secondary session \<open>_cleanup\<close> makes no external call
  and changes nothing else; and for every platform other than kick \<open>watch_stream\<close>
  does come back.
\<close>

theorem watch_stream_cleanup_once:
  "(watch_stream E c s = Some (r, s') \<longrightarrow> cleanup_calls s' = Suc (cleanup_calls s))
   \<and> (secondary_browser s = None \<longrightarrow> cleanup E s = (Inr (), s\<lparr>cleanup_calls := Suc (cleanup_calls s)\<rparr>))
   \<and> (platform c \<noteq> ''kick'' \<longrightarrow> watch_stream E c s \<noteq> None)"
proof (intro conjI impI)
  assume "watch_stream E c s = Some (r, s')"
  then obtain r1 s1 where "watch_stream_try E c s = Some (r1, s1)" "s' = snd (cleanup E s1)"
    by (auto elim: watch_stream_cases)
  then show "cleanup_calls s' = Suc (cleanup_calls s)"
    using watch_stream_try_frame[of E c s r1 s1] by (simp add: cleanup_calls_cleanup)
next
  assume "secondary_browser s = None"
  then show "cleanup E s = (Inr (), s\<lparr>cleanup_calls := Suc (cleanup_calls s)\<rparr>)"
    by (rule cleanup_no_secondary)
next
  assume "platform c \<noteq> ''kick''"
  then show "watch_stream E c s \<noteq> None"
    by (auto simp: watch_stream_def watch_stream_try_def watch_stream_with_def Let_def
             split: option.splits prod.splits sum.splits if_splits)
qed

theorem watch_stream_cleanup_once_witness:
  "(\<exists>r s'. watch_stream (env_kick_live 20) kick_config StreamViewer_init = Some (r, s')
            \<and> cleanup_calls s' = Suc (cleanup_calls StreamViewer_init))
   \<and> (\<exists>e s'. watch_stream env_quit_fails twitch_config StreamViewer_init = Some (Inl e, s')
            \<and> cleanup_calls s' = Suc (cleanup_calls StreamViewer_init))
   \<and> secondary_browser StreamViewer_init = None
   \<and> cleanup env_quit_fails StreamViewer_init =
        (Inr (), StreamViewer_init\<lparr>cleanup_calls := Suc (cleanup_calls StreamViewer_init)\<rparr>)
   \<and> platform twitch_config \<noteq> ''kick''
   \<and> watch_stream env_quit_fails twitch_config StreamViewer_init \<noteq> None"
proof -
  obtain r1 sa where k: "watch_stream (env_kick_live 20) kick_config StreamViewer_init = Some (r1, sa)"
    using run_kick_live by blast
  obtain e2 sb where q: "watch_stream env_quit_fails twitch_config StreamViewer_init = Some (Inl e2, sb)"
    using run_twitch_quit_fails by blast
  have n: "secondary_browser StreamViewer_init = None"
    by (simp add: StreamViewer_init_def)
  have p: "platform twitch_config \<noteq> ''kick''"
    by (simp add: twitch_config_def)
  from watch_stream_cleanup_once[where E = "env_kick_live 20" and c = kick_config and s = StreamViewer_init and r = r1 and s' = sa] k
  have a: "cleanup_calls sa = Suc (cleanup_calls StreamViewer_init)" by blast
  from watch_stream_cleanup_once[where E = env_quit_fails and c = twitch_config and s = StreamViewer_init and r = "Inl e2" and s' = sb] q n p
  have b: "cleanup_calls sb = Suc (cleanup_calls StreamViewer_init)"
    "cleanup env_quit_fails StreamViewer_init =
        (Inr (), StreamViewer_init\<lparr>cleanup_calls := Suc (cleanup_calls StreamViewer_init)\<rparr>)"
    "watch_stream env_quit_fails twitch_config StreamViewer_init \<noteq> None"
    by blast+
  from k a q b n p show ?thesis by blast
qed

lemma cleanup_keeps_secondary:
  assumes "secondary_browser (snd (cleanup E s)) \<noteq> None" "browser s \<noteq> None"
  shows "\<exists>b e. act E (clock s) (quit_extra_driver b) = Some e \<and> fst (cleanup E s) = Inl e"
  using assms
  by (auto simp: cleanup_def bind_def do_act_def tick_def Let_def split: option.splits)

lemma cleanup_twice:
  assumes "fst (cleanup E s) = Inr ()"
  shows "cleanup E (snd (cleanup E s)) =
           (Inr (), (snd (cleanup E s))\<lparr>cleanup_calls := Suc (cleanup_calls (snd (cleanup E s)))\<rparr>)"
  using cleanup_returns[OF assms] by (rule cleanup_no_secondary)

text \<open>
  C9 (as amended). \<open>secondary_browser\<close> is \<open>None\<close> initially and after every
  \<open>watch_stream\<close> that returns; after one that raises, starting without a secondary
  session, it can be set only if the exception is the one \<open>quit_extra_driver\<close> raised.
  \<open>_cleanup\<close> resets it whenever it returns, and a second \<open>_cleanup\<close> is then a no-op.
  Challenge handling, navigation, the liveness check and the poll never touch it.
\<close>

theorem secondary_browser_invariant:
  "secondary_browser StreamViewer_init = None
   \<and> (watch_stream E c s = Some (Inr u, s') \<longrightarrow> secondary_browser s' = None)
   \<and> (secondary_browser s = None \<and> watch_stream E c s = Some (Inl e, s') \<and> secondary_browser s' \<noteq> None
        \<longrightarrow> (\<exists>n b. act E n (quit_extra_driver b) = Some e))
   \<and> (fst (cleanup E s) = Inr () \<longrightarrow>
        secondary_browser (snd (cleanup E s)) = None
        \<and> cleanup E (snd (cleanup E s)) =
            (Inr (), (snd (cleanup E s))\<lparr>cleanup_calls := Suc (cleanup_calls (snd (cleanup E s)))\<rparr>))
   \<and> secondary_browser (snd (handle_captcha_and_consent E b rt s)) = secondary_browser s
   \<and> secondary_browser (snd (initialize_stream_viewing E c s)) = secondary_browser s
   \<and> secondary_browser (snd (check_twitch_stream E user cfg s)) = secondary_browser s
   \<and> (kick_poll E s = Some y \<longrightarrow> secondary_browser (snd y) = secondary_browser s)"
proof (intro conjI impI)
  show "secondary_browser StreamViewer_init = None"
    by (simp add: StreamViewer_init_def)
next
  assume "watch_stream E c s = Some (Inr u, s')"
  then obtain r1 s1 where "s' = snd (cleanup E s1)"
    "fst (cleanup E s1) = Inr () \<and> Inr u = r1 \<or> (\<exists>e. fst (cleanup E s1) = Inl e \<and> (Inr u :: exn + unit) = Inl e)"
    by (auto elim: watch_stream_cases)
  then show "secondary_browser s' = None"
    by (auto simp: cleanup_returns)
next
  assume a: "secondary_browser s = None \<and> watch_stream E c s = Some (Inl e, s') \<and> secondary_browser s' \<noteq> None"
  then obtain r1 s1 where t: "watch_stream_try E c s = Some (r1, s1)" and s': "s' = snd (cleanup E s1)"
    and r: "fst (cleanup E s1) = Inr () \<and> Inl e = r1 \<or> (\<exists>e'. fst (cleanup E s1) = Inl e' \<and> (Inl e :: exn + unit) = Inl e')"
    by (auto elim: watch_stream_cases)
  have s1: "secondary_browser s1 \<noteq> None"
  proof
    assume n: "secondary_browser s1 = None"
    have "secondary_browser s' = None"
      unfolding s' cleanup_no_secondary[OF n] using n by simp
    with a show False by simp
  qed
  then have "browser s1 \<noteq> None"
    using watch_stream_try_frame[OF t] a by simp
  moreover have "secondary_browser (snd (cleanup E s1)) \<noteq> None"
    using a s' by simp
  ultimately obtain b e' where "act E (clock s1) (quit_extra_driver b) = Some e'" "fst (cleanup E s1) = Inl e'"
    using cleanup_keeps_secondary[of E s1] by blast
  then show "\<exists>n b. act E n (quit_extra_driver b) = Some e"
    using r by auto
next
  assume "fst (cleanup E s) = Inr ()"
  then show "secondary_browser (snd (cleanup E s)) = None"
    by (rule cleanup_returns)
next
  assume "fst (cleanup E s) = Inr ()"
  then show "cleanup E (snd (cleanup E s)) =
            (Inr (), (snd (cleanup E s))\<lparr>cleanup_calls := Suc (cleanup_calls (snd (cleanup E s)))\<rparr>)"
    by (rule cleanup_twice)
next
  show "secondary_browser (snd (handle_captcha_and_consent E b rt s)) = secondary_browser s"
    using handle_captcha_and_consent_frame[of s E b rt] by (simp add: viewer_unchanged_def)
next
  show "secondary_browser (snd (initialize_stream_viewing E c s)) = secondary_browser s"
    using initialize_stream_viewing_frame[of s E c] by (simp add: viewer_unchanged_def)
next
  show "secondary_browser (snd (check_twitch_stream E user cfg s)) = secondary_browser s"
    using check_twitch_stream_frame[of s E user cfg] by (simp add: viewer_unchanged_def)
next
  assume "kick_poll E s = Some y"
  from kick_poll_frame[OF this] show "secondary_browser (snd y) = secondary_browser s"
    by (simp add: viewer_unchanged_def)
qed

theorem secondary_browser_invariant_witness:
  "secondary_browser StreamViewer_init = None
   \<and> (\<exists>s'. watch_stream (env_kick_live 20) kick_config StreamViewer_init = Some (Inr (), s')
          \<and> secondary_browser s' = None)
   \<and> (\<exists>e s'. watch_stream env_quit_fails twitch_config StreamViewer_init = Some (Inl e, s')
          \<and> secondary_browser s' \<noteq> None
          \<and> (\<exists>n b. act env_quit_fails n (quit_extra_driver b) = Some e))
   \<and> fst (cleanup (env_kick_live 0) (StreamViewer_init\<lparr>browser := Some 0, secondary_browser := Some 8\<rparr>)) = Inr ()
   \<and> secondary_browser (snd (cleanup (env_kick_live 0)
         (StreamViewer_init\<lparr>browser := Some 0, secondary_browser := Some 8\<rparr>))) = None
   \<and> (\<exists>y. kick_poll (env_kick_live 0) (StreamViewer_init\<lparr>browser := Some 0, secondary_browser := Some 8\<rparr>) = Some y
          \<and> secondary_browser (snd y) = Some 8)"
proof -
  let ?s = "StreamViewer_init\<lparr>browser := Some 0, secondary_browser := Some 8\<rparr>"
  obtain sa where k: "watch_stream (env_kick_live 20) kick_config StreamViewer_init = Some (Inr (), sa)"
    using run_kick_live by blast
  obtain e2 sb where q: "watch_stream env_quit_fails twitch_config StreamViewer_init = Some (Inl e2, sb)"
    and q2: "secondary_browser sb \<noteq> None"
    using run_twitch_quit_fails by simp
  have n: "secondary_browser StreamViewer_init = None"
    by (simp add: StreamViewer_init_def)
  have cl: "fst (cleanup (env_kick_live 0) ?s) = Inr ()"
    by (simp add: run_defs env_kick_live_def)
  obtain y where y: "kick_poll (env_kick_live 0) ?s = Some y"
    by (simp add: kick_poll.simps do_ask_def env_kick_live_def StreamViewer_init_def)
  have s8: "secondary_browser ?s = Some 8"
    by simp
  from secondary_browser_invariant[where E = "env_kick_live 20" and c = kick_config and s = StreamViewer_init and u = "()" and s' = sa] k
  have a: "secondary_browser sa = None" by blast
  from secondary_browser_invariant[where E = env_quit_fails and c = twitch_config and s = StreamViewer_init and e = e2 and s' = sb] q q2 n
  have b: "\<exists>n b. act env_quit_fails n (quit_extra_driver b) = Some e2" by blast
  from secondary_browser_invariant[where E = "env_kick_live 0" and s = ?s] cl
  have c: "secondary_browser (snd (cleanup (env_kick_live 0) ?s)) = None" by blast
  from secondary_browser_invariant[where E = "env_kick_live 0" and s = ?s and y = y] y s8
  have d: "secondary_browser (snd y) = Some 8" by simp
  from n k a q q2 b cl c y d show ?thesis by blast
qed

text \<open>
  C9 as stated fails: when \<open>quit_extra_driver\<close> raises, \<open>_cleanup\<close> leaves the handle
  set, and \<open>watch_stream\<close> raises with a secondary session still recorded.
\<close>

theorem secondary_browser_kept_counterexample:
  "map_option (\<lambda>r. (fst r, secondary_browser (snd r)))
     (watch_stream env_quit_fails twitch_config StreamViewer_init) =
     Some (Inl (OtherException ''quit failed''), Some 8)"
  by (simp add: run_twitch_quit_fails)

section \<open>The twitch liveness decision\<close>

lemma wrapper_filter:
  assumes "\<And>m. \<not> P (LogError m)"
  shows "filter P (trace (snd (wrapper m name func s))) = filter P (trace (snd (func s)))"
  using assms
  by (auto simp: wrapper_def log_error_def split: prod.splits sum.splits)

lemma retrying_filter:
  assumes "\<And>d. \<not> P (TimeSleep d)"
    and "\<And>s. filter P (trace (snd (fn s))) = filter P (trace s)"
  shows "filter P (trace (snd (retrying E m w fn n s))) = filter P (trace s)"
proof (rule retrying_invariant[where R = "\<lambda>s s'. filter P (trace s') = filter P (trace s)"])
  show "filter P (trace (snd (nap_sleep E d s))) = filter P (trace s)" for d s
    by (cases rule: nap_sleep_cases[where E = E and d = d and s = s]) (simp_all add: assms(1))
qed (simp_all add: assms(2))

lemma retrying_http:
  assumes "\<And>s. filter is_http_call (trace (snd (fn s))) = filter is_http_call (trace s) @ [Call req]"
  shows "\<exists>k. filter is_http_call (trace (snd (retrying E m w fn n s))) =
               filter is_http_call (trace s) @ replicate k (Call req)
             \<and> 1 \<le> k \<and> (k = 1 \<or> int (n + k) \<le> m + 1)"
  using assms
proof (induction E m w fn n s rule: retrying.induct)
  case (1 E m w fn n s)
  note pres = "1.prems"
  obtain r s1 where fs: "fn s = (r, s1)" by (cases "fn s")
  have u1: "filter is_http_call (trace s1) = filter is_http_call (trace s) @ [Call req]"
    using pres[of s] fs by simp
  show ?case
  proof (cases "\<exists>e. r = Inl e \<and> is_Exception e")
    case False
    then have "retrying E m w fn n s = (r, s1)"
      using fs by (intro retrying_stop) (cases r; auto)+
    then show ?thesis using u1 by (intro exI[of _ 1]) simp
  next
    case True
    then obtain e where e: "r = Inl e" "is_Exception e" by auto
    show ?thesis
    proof (cases "stop_after_attempt m n")
      case True
      then show ?thesis
        using retrying_exhausted[of fn s e s1 m n E w] fs e u1 by (intro exI[of _ 1]) simp
    next
      case False
      note step = retrying_step[of fn s e s1 m n E w, OF _ e(2) False]
      show ?thesis
      proof (cases rule: nap_sleep_cases[where E = E and d = "retry_wait w n" and s = s1])
        case (raised e')
        then show ?thesis using step fs e u1 by (intro exI[of _ 1]) simp
      next
        case slept
        let ?s2 = "s1\<lparr>clock := Suc (clock s1), trace := trace s1 @ [TimeSleep (retry_wait w n)]\<rparr>"
        from "1.IH"[OF fs[symmetric] e(1) _ False slept(1)[symmetric] refl pres] e(2)
        obtain k where k: "filter is_http_call (trace (snd (retrying E m w fn (Suc n) ?s2))) =
               filter is_http_call (trace ?s2) @ replicate k (Call req)"
              "1 \<le> k" "k = 1 \<or> int (Suc n + k) \<le> m + 1"
          by auto
        have s2: "filter is_http_call (trace ?s2) = filter is_http_call (trace s) @ [Call req]"
          using u1 by simp
        have eq: "retrying E m w fn n s = retrying E m w fn (Suc n) ?s2"
          using step fs e slept by simp
        have "filter is_http_call (trace (snd (retrying E m w fn n s))) =
               filter is_http_call (trace s) @ replicate (Suc k) (Call req)"
          using eq k(1) s2 by (simp add: replicate_app_Cons_same)
        moreover have "int (n + Suc k) \<le> m + 1"
          using k(3) False by (auto simp: stop_after_attempt_def)
        ultimately show ?thesis by (intro exI[of _ "Suc k"]) simp
      qed
    qed
  qed
qed

lemma check_twitch_stream_func_http:
  "filter is_http_call (trace (snd (check_twitch_stream_func E user cfg s))) =
     filter is_http_call (trace s) @ [Call (twitch_request user cfg)]"
  by (simp add: check_twitch_stream_func_def do_http_def tick_def log_error_def
           split: sum.splits option.splits)

lemma check_twitch_stream_func_new_driver:
  "filter is_new_driver (trace (snd (check_twitch_stream_func E user cfg s))) = filter is_new_driver (trace s)"
  by (simp add: check_twitch_stream_func_def do_http_def tick_def log_error_def
           split: sum.splits option.splits)

lemma check_twitch_stream_http:
  "\<exists>k. 1 \<le> k \<and> k \<le> 3 \<and> filter is_http_call (trace (snd (check_twitch_stream E user cfg s))) =
     filter is_http_call (trace s) @ replicate k (Call (twitch_request user cfg))"
proof -
  have "filter is_http_call (trace (snd (wrapper 3 ''check_twitch_stream'' (check_twitch_stream_func E user cfg) s'))) =
     filter is_http_call (trace s') @ [Call (twitch_request user cfg)]" for s'
    by (simp add: wrapper_filter check_twitch_stream_func_http)
  from retrying_http[of "wrapper 3 ''check_twitch_stream'' (check_twitch_stream_func E user cfg)"
         "twitch_request user cfg" E 3 2 1 s, OF this]
  obtain k where k: "filter is_http_call (trace (snd (retrying E 3 2
           (wrapper 3 ''check_twitch_stream'' (check_twitch_stream_func E user cfg)) 1 s))) =
         filter is_http_call (trace s) @ replicate k (Call (twitch_request user cfg))"
       "1 \<le> k" "k = 1 \<or> int (1 + k) \<le> 3 + 1"
    by blast
  from k(3) have "k \<le> 3" by auto
  with k(1,2) show ?thesis
    unfolding check_twitch_stream_def retry_on_exception_def by blast
qed

lemma check_twitch_stream_new_driver:
  "filter is_new_driver (trace (snd (check_twitch_stream E user cfg s))) = filter is_new_driver (trace s)"
  unfolding check_twitch_stream_def retry_on_exception_def
  by (rule retrying_filter) (simp_all add: wrapper_filter check_twitch_stream_func_new_driver)

lemma handle_captcha_and_consent_calls:
  "filter is_http_call (trace (snd (handle_captcha_and_consent E h rt s))) = filter is_http_call (trace s)"
  "filter is_new_driver (trace (snd (handle_captcha_and_consent E h rt s))) = filter is_new_driver (trace s)"
  by (simp_all add: handle_captcha_and_consent_def bind_def do_act_def do_ask_def tick_def
           split: option.splits sum.splits)

lemma setup_secondary_viewer_calls:
  "filter is_http_call (trace (snd (setup_secondary_viewer E c s))) = filter is_http_call (trace s)"
  "filter is_new_driver (trace (snd (setup_secondary_viewer E c s))) =
     filter is_new_driver (trace s) @ (case browser s of None \<Rightarrow> [] | Some h \<Rightarrow> [Call (get_new_driver h)])"
  by (simp_all add: setup_secondary_viewer_def bind_def do_act_def do_new_def tick_def
           handle_captcha_and_consent_calls split: option.splits sum.splits)

lemma watch_twitch_stream_http:
  "filter is_http_call (trace (snd (watch_twitch_stream E c s))) =
     filter is_http_call (trace (snd (check_twitch_stream E (username c) TwitchConfig_default s)))"
  by (simp add: watch_twitch_stream_def bind_def setup_secondary_viewer_calls split: prod.splits sum.splits)

lemma watch_twitch_stream_new_driver:
  "filter is_new_driver (trace (snd (watch_twitch_stream E c s))) =
     filter is_new_driver (trace s) @
       (case browser s of
          None \<Rightarrow> []
        | Some h \<Rightarrow> if fst (check_twitch_stream E (username c) TwitchConfig_default s) = Inr True
                    then [Call (get_new_driver h)] else [])"
proof -
  obtain r s1 where ch: "check_twitch_stream E (username c) TwitchConfig_default s = (r, s1)"
    by (cases "check_twitch_stream E (username c) TwitchConfig_default s")
  have b: "browser s1 = browser s"
    using check_twitch_stream_frame[of s E "username c" TwitchConfig_default] ch
    by (simp add: viewer_unchanged_def)
  have n: "filter is_new_driver (trace s1) = filter is_new_driver (trace s)"
    using check_twitch_stream_new_driver[of E "username c" TwitchConfig_default s] ch by simp
  show ?thesis
    by (simp add: watch_twitch_stream_def bind_def ch b n setup_secondary_viewer_calls
             split: sum.splits option.splits)
qed

text \<open>
  C10. \<open>_watch_twitch_stream\<close> sends between one and three GETs, all to
  \<open>https://www.twitch.tv/<username>\<close> with the hard-coded Client-ID; changing
  \<open>base_url\<close> changes neither these requests nor whether a second driver is asked for,
  which happens exactly when the check with the default \<open>TwitchConfig\<close> returned true.
\<close>

theorem watch_twitch_stream_base_url_independent:
  "(\<exists>k. 1 \<le> k \<and> k \<le> 3 \<and>
       filter is_http_call (trace (snd (watch_twitch_stream E c s))) =
       filter is_http_call (trace s) @
       replicate k (Call (requests_get (''https://www.twitch.tv/'' @ username c) ''kimne78kx3ncx6brgo4mv6wki5h1ko'' 10)))
   \<and> filter is_http_call (trace (snd (watch_twitch_stream E (c\<lparr>base_url := b\<rparr>) s))) =
       filter is_http_call (trace (snd (watch_twitch_stream E c s)))
   \<and> filter is_new_driver (trace (snd (watch_twitch_stream E c s))) =
       filter is_new_driver (trace s) @
        (case browser s of
           None \<Rightarrow> []
         | Some h \<Rightarrow> if fst (check_twitch_stream E (username c) TwitchConfig_default s) = Inr True
                     then [Call (get_new_driver h)] else [])
   \<and> filter is_new_driver (trace (snd (watch_twitch_stream E (c\<lparr>base_url := b\<rparr>) s))) =
       filter is_new_driver (trace (snd (watch_twitch_stream E c s)))"
proof (intro conjI)
  show "\<exists>k. 1 \<le> k \<and> k \<le> 3 \<and>
       filter is_http_call (trace (snd (watch_twitch_stream E c s))) =
       filter is_http_call (trace s) @
       replicate k (Call (requests_get (''https://www.twitch.tv/'' @ username c) ''kimne78kx3ncx6brgo4mv6wki5h1ko'' 10))"
    using check_twitch_stream_http[of E "username c" TwitchConfig_default s]
    by (simp add: watch_twitch_stream_http TwitchConfig_default_def)
qed (simp_all add: watch_twitch_stream_http watch_twitch_stream_new_driver split: option.splits)

section \<open>The entry point\<close>

text \<open>
  C7. \<open>main\<close> runs the kick watch first; if that never ends or raises, nothing of
  twitch happens. Otherwise it checks twitch liveness afresh and runs the twitch watch
  exactly when the check returned true. A \<open>StreamViewerException\<close> reaching the top is
  logged and \<open>main\<close> returns normally; any other exception propagates.
\<close>

theorem main_sequence:
  "(watch_stream E kick_config StreamViewer_init = None \<longrightarrow> main E = None)
   \<and> (watch_stream E kick_config StreamViewer_init = Some (Inl e, sa) \<longrightarrow>
        main_try E StreamViewer_init = Some (Inl e, sa))
   \<and> (watch_stream E kick_config StreamViewer_init = Some (Inr u, sa)
        \<and> check_twitch_stream E ''brutalles'' TwitchConfig_default sa = (Inl e, sb) \<longrightarrow>
        main_try E StreamViewer_init = Some (Inl e, sb))
   \<and> (watch_stream E kick_config StreamViewer_init = Some (Inr u, sa)
        \<and> check_twitch_stream E ''brutalles'' TwitchConfig_default sa = (Inr False, sb) \<longrightarrow>
        main E = Some (Inr (), sb))
   \<and> (watch_stream E kick_config StreamViewer_init = Some (Inr u, sa)
        \<and> check_twitch_stream E ''brutalles'' TwitchConfig_default sa = (Inr True, sb) \<longrightarrow>
        main_try E StreamViewer_init = watch_stream E twitch_config sb)
   \<and> (main_try E StreamViewer_init = Some (Inl (StreamViewerException m), sc) \<longrightarrow>
        main E = Some (Inr (), log_error (''Stream viewing failed: '' @ m) sc))
   \<and> (main_try E StreamViewer_init = Some (Inl e, sc) \<and> \<not> is_StreamViewerException e \<longrightarrow>
        main E = Some (Inl e, sc))
   \<and> (main_try E StreamViewer_init = Some (Inr u, sc) \<longrightarrow> main E = Some (Inr (), sc))
   \<and> (main E = Some (r, sd) \<longrightarrow> \<not> (\<exists>m'. r = Inl (StreamViewerException m')))"
proof (intro conjI impI)
  assume "main E = Some (r, sd)"
  then show "\<not> (\<exists>m'. r = Inl (StreamViewerException m'))"
    by (auto simp: main_def split: option.splits prod.splits sum.splits if_splits)
qed (auto simp: main_def main_try_def twitch_config_def)

theorem main_sequence_witness:
  "watch_stream env_forever kick_config StreamViewer_init = None \<and> main env_forever = None
   \<and> (\<exists>e sa. watch_stream (env_sb_fails (OtherException ''no browser'')) kick_config StreamViewer_init = Some (Inl e, sa)
          \<and> main_try (env_sb_fails (OtherException ''no browser'')) StreamViewer_init = Some (Inl e, sa)
          \<and> \<not> is_StreamViewerException e
          \<and> main (env_sb_fails (OtherException ''no browser'')) = Some (Inl e, sa))
   \<and> (\<exists>sa e sb. watch_stream env_boom kick_config StreamViewer_init = Some (Inr (), sa)
          \<and> check_twitch_stream env_boom ''brutalles'' TwitchConfig_default sa = (Inl e, sb)
          \<and> main_try env_boom StreamViewer_init = Some (Inl e, sb))
   \<and> (\<exists>sa sb. watch_stream (env_resp 200 ''offline'') kick_config StreamViewer_init = Some (Inr (), sa)
          \<and> check_twitch_stream (env_resp 200 ''offline'') ''brutalles'' TwitchConfig_default sa = (Inr False, sb)
          \<and> main (env_resp 200 ''offline'') = Some (Inr (), sb))
   \<and> (\<exists>sa sb. watch_stream (env_kick_live 0) kick_config StreamViewer_init = Some (Inr (), sa)
          \<and> check_twitch_stream (env_kick_live 0) ''brutalles'' TwitchConfig_default sa = (Inr True, sb)
          \<and> main_try (env_kick_live 0) StreamViewer_init = watch_stream (env_kick_live 0) twitch_config sb)
   \<and> (\<exists>sc. main_try (env_sb_fails (StreamViewerException ''down'')) StreamViewer_init =
               Some (Inl (StreamViewerException ''down''), sc)
          \<and> main (env_sb_fails (StreamViewerException ''down'')) =
               Some (Inr (), log_error (''Stream viewing failed: '' @ ''down'') sc))
   \<and> (\<exists>sc. main_try (env_resp 200 ''offline'') StreamViewer_init = Some (Inr (), sc)
          \<and> main (env_resp 200 ''offline'') = Some (Inr (), sc))"
proof -
  \<comment> \<open>the kick watch never ends\<close>
  have f1: "watch_stream env_forever kick_config StreamViewer_init = None"
    by (rule run_kick_forever)
  from main_sequence[where E = env_forever] f1
  have f2: "main env_forever = None" by blast
  \<comment> \<open>the kick watch raises\<close>
  let ?o = "OtherException ''no browser''"
  obtain s1 where o1: "watch_stream (env_sb_fails ?o) kick_config StreamViewer_init = Some (Inl ?o, s1)"
    using run_sb_fails[of ?o kick_config] by simp
  have o0: "\<not> is_StreamViewerException ?o" by simp
  from main_sequence[where E = "env_sb_fails ?o" and e = ?o and sa = s1] o1
  have o2: "main_try (env_sb_fails ?o) StreamViewer_init = Some (Inl ?o, s1)" by blast
  from main_sequence[where E = "env_sb_fails ?o" and e = ?o and sc = s1] o2 o0
  have o3: "main (env_sb_fails ?o) = Some (Inl ?o, s1)" by blast
  \<comment> \<open>the liveness check raises\<close>
  obtain b1 where b1: "watch_stream env_boom kick_config StreamViewer_init = Some (Inr (), b1)"
    using run_kick_offline[of env_boom] by (auto simp: env_boom_def)
  obtain be b2 where b2: "check_twitch_stream env_boom ''brutalles'' TwitchConfig_default b1 = (Inl be, b2)"
    using check_twitch_stream_boom[of "''brutalles''" TwitchConfig_default b1] by blast
  from main_sequence[where E = env_boom and u = "()" and e = be and sa = b1 and sb = b2] b1 b2
  have b3: "main_try env_boom StreamViewer_init = Some (Inl be, b2)" by blast
  \<comment> \<open>the liveness check is negative\<close>
  let ?E = "env_resp 200 ''offline''"
  obtain r1 where r1: "watch_stream ?E kick_config StreamViewer_init = Some (Inr (), r1)"
    using run_kick_offline[of ?E] by (auto simp: env_resp_def)
  have "http ?E (clock r1) (twitch_request ''brutalles'' TwitchConfig_default) =
          Inr \<lparr>status_code = 200, reason = [], resp_url = ''https://www.twitch.tv/brutalles'', resp_text = ''offline''\<rparr>"
    by (simp add: env_resp_def)
  from check_twitch_stream_response[OF this]
  moreover have "\<not> sublist ''isLiveBroadcast'' ''offline''"
    by code_simp
  ultimately obtain r2 where r2: "check_twitch_stream ?E ''brutalles'' TwitchConfig_default r1 = (Inr False, r2)"
    by (simp add: TwitchConfig_default_def)
  from main_sequence[where E = ?E and u = "()" and sa = r1 and sb = r2] r1 r2
  have r3: "main ?E = Some (Inr (), r2)" by blast
  have r4: "main_try ?E StreamViewer_init = Some (Inr (), r2)"
    using r1 r2 by (simp add: main_try_def twitch_config_def)
  \<comment> \<open>the liveness check is positive\<close>
  let ?L = "env_kick_live 0"
  have "act ?L n c = None" "ask ?L n c = Inr False" "new_session ?L n c = Inr n" for n c
    by (simp_all add: env_kick_live_def split: call.splits)
  then obtain l1 where l1: "watch_stream ?L kick_config StreamViewer_init = Some (Inr (), l1)"
    using run_kick_offline[of ?L] by blast
  have "http ?L (clock l1) (twitch_request ''brutalles'' TwitchConfig_default) =
          Inr \<lparr>status_code = 200, reason = [], resp_url = ''https://www.twitch.tv/brutalles'', resp_text = ''{isLiveBroadcast:true}''\<rparr>"
    by (simp add: env_kick_live_def)
  from check_twitch_stream_response[OF this]
  obtain l2 where l2: "check_twitch_stream ?L ''brutalles'' TwitchConfig_default l1 = (Inr True, l2)"
    by (simp add: TwitchConfig_default_def marker_in_body)
  from main_sequence[where E = ?L and u = "()" and sa = l1 and sb = l2] l1 l2
  have l3: "main_try ?L StreamViewer_init = watch_stream ?L twitch_config l2" by blast
  \<comment> \<open>a domain error at top level\<close>
  let ?d = "StreamViewerException ''down''"
  obtain d1 where d1: "watch_stream (env_sb_fails ?d) kick_config StreamViewer_init = Some (Inl ?d, d1)"
    using run_sb_fails[of ?d kick_config] by simp
  from main_sequence[where E = "env_sb_fails ?d" and e = ?d and sa = d1] d1
  have d2: "main_try (env_sb_fails ?d) StreamViewer_init = Some (Inl ?d, d1)" by blast
  from main_sequence[where E = "env_sb_fails ?d" and m = "''down''" and sc = d1] d2
  have d3: "main (env_sb_fails ?d) = Some (Inr (), log_error (''Stream viewing failed: '' @ ''down'') d1)"
    by blast
  from f1 f2 o1 o2 o0 o3 b1 b2 b3 r1 r2 r3 r4 l1 l2 l3 d2 d3
  show ?thesis by blast
qed

end
